theory Spec2Isabelle
  imports Main
begin

section \<open>The host: file system, process table, platform\<close>

text \<open>
  The lock guard of \<open>pkg/util/filelock.go\<close> talks to the operating system through
  \<open>os.Stat\<close>, \<open>os.ReadFile\<close>, \<open>os.Remove\<close>, \<open>os.OpenFile\<close>, \<open>fmt.Fprintf\<close>,
  \<open>syscall.Kill\<close>, \<open>os.Getpid\<close>, \<open>os.TempDir\<close>, \<open>filepath.Join\<close> and
  \<open>runtime.GOOS\<close>. The file system is a map from paths to files, passed explicitly
  through every call; the rest of the host is a record that the calls only read:
  \<open>may_create\<close> says at which paths the calling process may create a file (the
  directory is there and may be written). The record also holds what the outside world
  answers to \<open>pkg/node\<close>: the host name (\<open>None\<close> when \<open>os.Hostname\<close> fails), the environment variable
  \<open>MQTT_BROKER_URL\<close> (empty when unset), whether a connection to a broker URL
  succeeds, and whether the HTTP registration succeeds.
\<close>

type_synonym path = string

text \<open>
  A file: its bytes, whether \<open>os.ReadFile\<close> by the calling process may read them, and
  whether \<open>os.Remove\<close> by the calling process may remove the file (it may not remove
  another user's file from a sticky directory such as \<open>/tmp\<close>).
\<close>

record fileobj =
  content :: string
  readable :: bool
  removable :: bool

type_synonym filesystem = "path \<Rightarrow> fileobj option"

text \<open>
  What signal 0 finds at a PID, as the comment in \<open>isProcessRunning\<close> lists it: no such
  process (\<open>ESRCH\<close>), a process the caller may signal (\<open>nil\<close>), or a process that exists
  but belongs to somebody else (\<open>EPERM\<close>).
\<close>

datatype proc_state = NoSuchProcess | Signalable | NotPermitted

datatype errno = ESRCH | EPERM

datatype os_error = ErrNotExist | ErrExist | ErrPermission

record host =
  TempDir :: string
  filepath_Join :: "string \<Rightarrow> string \<Rightarrow> string"
  GOOS :: string
  procs :: "int \<Rightarrow> proc_state"
  Getpid :: int
  may_create :: "path \<Rightarrow> bool"
  os_Hostname :: "string option"
  env_MQTT_BROKER_URL :: string
  mqtt_Connect_ok :: "string \<Rightarrow> bool"
  http_register_ok :: bool

text \<open>An open descriptor, named by the file it was opened on.\<close>

datatype os_File = os_File path

text \<open>The empty path names no file: every call on it fails with \<open>ENOENT\<close>.\<close>

definition lookup :: "filesystem \<Rightarrow> path \<Rightarrow> fileobj option" where
  "lookup fs p = (if p = [] then None else fs p)"

text \<open>\<open>os.Stat\<close>: \<open>None\<close> is the \<open>nil\<close> error. It leaves the file system as it is.\<close>

definition os_Stat :: "path \<Rightarrow> filesystem \<Rightarrow> os_error option \<times> filesystem" where
  "os_Stat p fs = (case lookup fs p of None \<Rightarrow> (Some ErrNotExist, fs) | Some f \<Rightarrow> (None, fs))"

definition os_ReadFile :: "path \<Rightarrow> filesystem \<Rightarrow> (os_error + string) \<times> filesystem" where
  "os_ReadFile p fs =
     (case lookup fs p of
        None \<Rightarrow> (Inl ErrNotExist, fs)
      | Some f \<Rightarrow> (if readable f then Inr (content f) else Inl ErrPermission, fs))"

text \<open>
  \<open>os.Remove\<close>: a file that is there is removed if the caller may remove it, and
  stays, with a permission error, if not.
\<close>

definition os_Remove :: "path \<Rightarrow> filesystem \<Rightarrow> os_error option \<times> filesystem" where
  "os_Remove p fs =
     (case lookup fs p of
        None \<Rightarrow> (Some ErrNotExist, fs)
      | Some f \<Rightarrow> if removable f then (None, fs(p := None)) else (Some ErrPermission, fs))"

text \<open>
  \<open>os.OpenFile(p, O_CREATE|O_EXCL|O_WRONLY, 0644)\<close>: fails when a file is there, and
  when the caller may not create a file at the path; otherwise it creates an empty file,
  which its creator may read and remove.
\<close>

definition os_OpenFile_excl ::
  "host \<Rightarrow> path \<Rightarrow> filesystem \<Rightarrow> (os_error + os_File) \<times> filesystem" where
  "os_OpenFile_excl h p fs =
     (if p = [] then (Inl ErrNotExist, fs)
      else case fs p of
        Some f \<Rightarrow> (Inl ErrExist, fs)
      | None \<Rightarrow>
          if may_create h p
          then (Inr (os_File p),
                fs(p \<mapsto> \<lparr>content = [], readable = True, removable = True\<rparr>))
          else (Inl ErrPermission, fs))"

text \<open>\<open>%d\<close> of \<open>fmt\<close>: the decimal text of an integer.\<close>

fun nat_digits :: "nat \<Rightarrow> string" where
  "nat_digits n =
     (if n < 10 then [''0123456789'' ! n]
      else nat_digits (n div 10) @ [''0123456789'' ! (n mod 10)])"

declare nat_digits.simps [simp del]

definition itoa :: "int \<Rightarrow> string" where
  "itoa i = (if i < 0 then CHR ''-'' # nat_digits (nat (- i)) else nat_digits (nat i))"

text \<open>
  \<open>fmt.Fprintf(f, "%d", n)\<close> on a descriptor at offset 0: the text overwrites the start
  of the file the descriptor was opened on.
\<close>

definition Fprintf_d :: "os_File \<Rightarrow> int \<Rightarrow> filesystem \<Rightarrow> filesystem" where
  "Fprintf_d f n fs =
     (case f of os_File p \<Rightarrow>
        (case lookup fs p of
           None \<Rightarrow> fs
         | Some d \<Rightarrow> fs(p \<mapsto> d\<lparr>content := itoa n @ drop (length (itoa n)) (content d)\<rparr>)))"

text \<open>\<open>Close\<close> on an \<open>os.File\<close> changes no file.\<close>

definition os_File_Close :: "os_File \<Rightarrow> filesystem \<Rightarrow> filesystem" where
  "os_File_Close f fs = fs"

text \<open>
  \<open>strconv.Atoi\<close> on a 64-bit platform: an optional sign, then one or more decimal
  digits and nothing else, the value within the range of \<open>int\<close>.
\<close>

definition digit_val :: "char \<Rightarrow> int option" where
  "digit_val c = map_of (zip ''0123456789'' [0, 1, 2, 3, 4, 5, 6, 7, 8, 9]) c"

fun parse_digits :: "string \<Rightarrow> int \<Rightarrow> int option" where
  "parse_digits [] acc = Some acc"
| "parse_digits (c # cs) acc =
     (case digit_val c of None \<Rightarrow> None | Some d \<Rightarrow> parse_digits cs (acc * 10 + d))"

definition Atoi :: "string \<Rightarrow> int option" where
  "Atoi s =
     (let neg = (s \<noteq> [] \<and> hd s = CHR ''-'');
          body = (if s \<noteq> [] \<and> (hd s = CHR ''-'' \<or> hd s = CHR ''+'') then tl s else s)
      in if body = [] then None
         else case parse_digits body 0 of
           None \<Rightarrow> None
         | Some n \<Rightarrow>
             (let v = (if neg then - n else n)
              in if v < - (2 ^ 63) \<or> 2 ^ 63 - 1 < v then None else Some v))"

text \<open>\<open>syscall.Kill(pid, 0)\<close>: \<open>None\<close> is the \<open>nil\<close> error.\<close>

definition syscall_Kill0 :: "host \<Rightarrow> int \<Rightarrow> errno option" where
  "syscall_Kill0 h pid =
     (case procs h pid of
        NoSuchProcess \<Rightarrow> Some ESRCH
      | Signalable \<Rightarrow> None
      | NotPermitted \<Rightarrow> Some EPERM)"

text \<open>A PID identifies a live process when some process has it, whoever owns it.\<close>

definition live :: "host \<Rightarrow> int \<Rightarrow> bool" where
  "live h pid = (procs h pid \<noteq> NoSuchProcess)"

section \<open>The lock guard (pkg/util/filelock.go)\<close>

record FileLock =
  File :: "os_File option"
  Path :: string

definition isProcessRunning :: "host \<Rightarrow> int \<Rightarrow> bool" where
  "isProcessRunning h pid =
     (if pid \<le> 0 then False
      else if GOOS h \<noteq> ''windows'' then
        (if syscall_Kill0 h pid = None then True else False)
      else True)"

definition GetLockFilePath :: "host \<Rightarrow> string \<Rightarrow> string" where
  "GetLockFilePath h appName = filepath_Join h (TempDir h) (appName @ ''.lock'')"

text \<open>
  The tail of \<open>AcquireApplicationLock\<close>, reached when no file was found or after the
  old one was removed: exclusive creation, then the PID is written.
\<close>

definition create_lock :: "host \<Rightarrow> path \<Rightarrow> filesystem \<Rightarrow> (os_File option \<times> string) \<times> filesystem" where
  "create_lock h lockPath fs =
     (case os_OpenFile_excl h lockPath fs of
        (Inl err, fs1) \<Rightarrow> ((None, []), fs1)
      | (Inr f, fs1) \<Rightarrow> ((Some f, lockPath), Fprintf_d f (Getpid h) fs1))"

definition AcquireApplicationLock ::
  "host \<Rightarrow> string \<Rightarrow> filesystem \<Rightarrow> (os_File option \<times> string) \<times> filesystem" where
  "AcquireApplicationLock h appName fs =
     (let lockPath = filepath_Join h (TempDir h) (appName @ ''.lock'') in
      case os_Stat lockPath fs of
        (None, fs1) \<Rightarrow>
          (case os_ReadFile lockPath fs1 of
             (Inr pidBytes, fs2) \<Rightarrow>
               (case Atoi pidBytes of
                  Some pid \<Rightarrow>
                    if isProcessRunning h pid then ((None, []), fs2)
                    else create_lock h lockPath (snd (os_Remove lockPath fs2))
                | None \<Rightarrow> create_lock h lockPath (snd (os_Remove lockPath fs2)))
           | (Inl readErr, fs2) \<Rightarrow> create_lock h lockPath (snd (os_Remove lockPath fs2)))
      | (Some err, fs1) \<Rightarrow> create_lock h lockPath fs1)"

definition AcquireLock :: "host \<Rightarrow> string \<Rightarrow> filesystem \<Rightarrow> FileLock option \<times> filesystem" where
  "AcquireLock h appName fs =
     (case AcquireApplicationLock h appName fs of
        ((None, path), fs1) \<Rightarrow> (None, fs1)
      | ((Some file, path), fs1) \<Rightarrow> (Some \<lparr>File = Some file, Path = path\<rparr>, fs1))"

definition ReleaseFileLock :: "os_File option \<Rightarrow> string \<Rightarrow> filesystem \<Rightarrow> filesystem" where
  "ReleaseFileLock lockFile lockPath fs =
     (let fs1 = (case lockFile of Some f \<Rightarrow> os_File_Close f fs | None \<Rightarrow> fs)
      in if lockPath \<noteq> [] then snd (os_Remove lockPath fs1) else fs1)"

definition Release :: "FileLock option \<Rightarrow> filesystem \<Rightarrow> filesystem" where
  "Release l fs =
     (case l of None \<Rightarrow> fs | Some lk \<Rightarrow> ReleaseFileLock (File lk) (Path lk) fs)"

definition IsLocked :: "host \<Rightarrow> string \<Rightarrow> filesystem \<Rightarrow> (bool \<times> int) \<times> filesystem" where
  "IsLocked h appName fs =
     (let lockPath = GetLockFilePath h appName in
      case os_Stat lockPath fs of
        (Some ErrNotExist, fs1) \<Rightarrow> ((False, 0), fs1)
      | (statErr, fs1) \<Rightarrow>
          (case os_ReadFile lockPath fs1 of
             (Inl err, fs2) \<Rightarrow> ((True, 0), fs2)
           | (Inr pidBytes, fs2) \<Rightarrow>
               (case Atoi pidBytes of
                  None \<Rightarrow> ((False, 0), fs2)
                | Some pid \<Rightarrow>
                    if isProcessRunning h pid then ((True, pid), fs2)
                    else ((False, 0), fs2))))"

section \<open>The process state shared by pkg/sync and pkg/node\<close>

text \<open>Durations and instants are nanoseconds, as \<open>time.Duration\<close> counts them.\<close>

definition Second :: int where
  "Second = 1000000000"

definition Minute :: int where
  "Minute = 60 * Second"

datatype NodeStatus =
  StatusDiscovered | StatusPending | StatusStarting | StatusRunning
  | StatusStopping | StatusStopped | StatusError | StatusUnknown

definition NodeStatus_string :: "NodeStatus \<Rightarrow> string" where
  "NodeStatus_string s =
     (case s of
        StatusDiscovered \<Rightarrow> ''discovered'' | StatusPending \<Rightarrow> ''pending''
      | StatusStarting \<Rightarrow> ''starting'' | StatusRunning \<Rightarrow> ''running''
      | StatusStopping \<Rightarrow> ''stopping'' | StatusStopped \<Rightarrow> ''stopped''
      | StatusError \<Rightarrow> ''error'' | StatusUnknown \<Rightarrow> ''unknown'')"

text \<open>
  A \<open>NodeContext\<close> is shared through pointers (the receiver holds one, every handler
  gets it through its \<open>context.Context\<close>, a \<open>RestartHandler\<close> holds its own), so the
  objects live in a store and a pointer is an address, \<open>None\<close> for \<open>nil\<close>. A shutdown
  hook is a \<open>func()\<close>; it is named by a number, and running it appends the number to the
  trace \<open>hooks_run\<close>. \<open>nc_status\<close> is the \<open>atomic.Value\<close>, \<open>None\<close> before the first
  \<open>Store\<close>; \<open>nc_cancelled\<close> says that \<open>cancelFunc\<close> has been called.
\<close>

record NodeContext =
  nc_cancelled :: bool
  nc_nodeName :: string
  nc_version :: string
  nc_status :: "NodeStatus option"
  nc_startTime :: int
  shutdownHooks :: "nat list"

record CommandResult =
  Success :: bool
  Message :: string
  res_RequestID :: string

text \<open>One constructor for each \<open>log.Printf\<close> of the functions embedded below.\<close>

datatype log_event =
  Log_lock_acquired string
  | Log_instance_info string string string int
  | Log_mqtt_initial_connect_failed
  | Log_mqtt_connected string
  | Log_http_register_failed
  | Log_control_action string
  | Log_control_stop
  | Log_control_restart
  | Log_lock_released string
  | Log_exit_on_stop string
  | Log_receiver_start_failed string
  | Log_receiver_started string string
  | Log_receiver_connected string
  | Log_subscribed string string
  | Log_register_sent string
  | Log_parse_failed string
  | Log_transport_parse_failed
  | Log_command_received string string
  | Log_command_failed string string
  | Log_command_result string "CommandResult option"
  | Log_no_handler string string
  | Log_stop_handler
  | Log_restart_handler
  | Log_heartbeat_exit string

text \<open>A message handed to the broker: its topic and, for a heartbeat, the instant.\<close>

datatype publication = Pub_register string | Pub_heartbeat string int

datatype goroutine =
  Go_startReconnectLoop | Go_startCommandReceiver string | Go_heartbeatLoop

record world =
  fs :: filesystem
  ctxs :: "nat \<Rightarrow> NodeContext option"
  next_ctx :: nat
  clock :: int
  logs :: "log_event list"
  hooks_run :: "nat list"
  published :: "publication list"
  spawned :: "goroutine list"

text \<open>
  A call either returns, or ends the process through \<open>os.Exit\<close>, or panics.
\<close>

datatype 'a outcome = Return 'a world | Exit int world | Panic world

definition log_Printf :: "log_event \<Rightarrow> world \<Rightarrow> world" where
  "log_Printf e w = w\<lparr>logs := logs w @ [e]\<rparr>"

definition go :: "goroutine \<Rightarrow> world \<Rightarrow> world" where
  "go g w = w\<lparr>spawned := spawned w @ [g]\<rparr>"

section \<open>NodeContext (pkg/sync/context.go)\<close>

definition update_ctx :: "nat \<Rightarrow> (NodeContext \<Rightarrow> NodeContext) \<Rightarrow> world \<Rightarrow> world" where
  "update_ctx a f w =
     (case ctxs w a of
        None \<Rightarrow> w
      | Some c \<Rightarrow> w\<lparr>ctxs := (ctxs w)(a \<mapsto> f c)\<rparr>)"

definition NewNodeContext :: "string \<Rightarrow> string \<Rightarrow> world \<Rightarrow> nat \<times> world" where
  "NewNodeContext nodeName version w =
     (next_ctx w,
      w\<lparr>ctxs := (ctxs w)(next_ctx w \<mapsto>
           \<lparr>nc_cancelled = False, nc_nodeName = nodeName, nc_version = version,
            nc_status = Some StatusStarting, nc_startTime = clock w, shutdownHooks = []\<rparr>),
        next_ctx := Suc (next_ctx w)\<rparr>)"

definition SetStatus :: "nat \<Rightarrow> NodeStatus \<Rightarrow> world \<Rightarrow> world" where
  "SetStatus a s w = update_ctx a (\<lambda>c. c\<lparr>nc_status := Some s\<rparr>) w"

definition GetStatus :: "nat \<Rightarrow> world \<Rightarrow> NodeStatus" where
  "GetStatus a w =
     (case ctxs w a of
        Some c \<Rightarrow> (case nc_status c of Some v \<Rightarrow> v | None \<Rightarrow> StatusUnknown)
      | None \<Rightarrow> StatusUnknown)"

text \<open>\<open>int64(time.Since(c.startTime).Seconds())\<close>: whole seconds, truncated toward zero.\<close>

definition GetUptime :: "nat \<Rightarrow> world \<Rightarrow> int" where
  "GetUptime a w =
     (case ctxs w a of
        Some c \<Rightarrow>
          (let d = clock w - nc_startTime c
           in if 0 \<le> d then d div Second else - ((- d) div Second))
      | None \<Rightarrow> 0)"

definition Cancel :: "nat \<Rightarrow> world \<Rightarrow> world" where
  "Cancel a w = update_ctx a (\<lambda>c. c\<lparr>nc_cancelled := True\<rparr>) (SetStatus a StatusStopping w)"

definition AddShutdownHook :: "nat \<Rightarrow> nat \<Rightarrow> world \<Rightarrow> world" where
  "AddShutdownHook a hook w = update_ctx a (\<lambda>c. c\<lparr>shutdownHooks := shutdownHooks c @ [hook]\<rparr>) w"

text \<open>
  The loop of \<open>ExecuteShutdownHooks\<close> runs \<open>shutdownHooks[i]\<close> for \<open>i\<close> from
  \<open>len - 1\<close> down to \<open>0\<close>; \<open>run_hooks_from hooks n\<close> is the loop with \<open>i = n - 1\<close>.
\<close>

fun run_hooks_from :: "nat list \<Rightarrow> nat \<Rightarrow> world \<Rightarrow> world" where
  "run_hooks_from hooks 0 w = w"
| "run_hooks_from hooks (Suc i) w =
     run_hooks_from hooks i (w\<lparr>hooks_run := hooks_run w @ [hooks ! i]\<rparr>)"

definition ExecuteShutdownHooks :: "nat \<Rightarrow> world \<Rightarrow> world" where
  "ExecuteShutdownHooks a w =
     (case ctxs w a of
        None \<Rightarrow> w
      | Some c \<Rightarrow>
          SetStatus a StatusStopped (run_hooks_from (shutdownHooks c) (length (shutdownHooks c)) w))"

section \<open>Command handlers (pkg/sync/handlers.go)\<close>

record Command =
  cmd_Command :: string
  cmd_Timestamp :: string
  cmd_RequestID :: string
  cmd_Parameters :: "(string \<times> string) list"

text \<open>
  What \<open>Handle\<close> gives back: the \<open>*CommandResult\<close> and the \<open>error\<close>, each \<open>None\<close> for
  \<open>nil\<close>. A closure is a function on the process state. The \<open>ctx\<close> argument of
  \<open>Handle\<close> is represented by the \<open>NodeContext\<close> pointer that
  \<open>GetNodeContextFromContext\<close> finds in it.
\<close>

type_synonym handle_result = "CommandResult option \<times> string option"

datatype CommandHandler =
  StopHandler "(world \<Rightarrow> unit outcome) option"
  | StatusHandler
  | RestartHandler "nat option"
  | QueryHandler
  | CustomHandler string "nat option \<Rightarrow> Command \<Rightarrow> world \<Rightarrow> handle_result outcome"

definition formatNodeInfo :: "host \<Rightarrow> nat \<Rightarrow> world \<Rightarrow> string" where
  "formatNodeInfo h a w =
     ''node_name='' @ (case ctxs w a of Some c \<Rightarrow> nc_nodeName c | None \<Rightarrow> [])
     @ '',version='' @ (case ctxs w a of Some c \<Rightarrow> nc_version c | None \<Rightarrow> [])
     @ '',status='' @ NodeStatus_string (GetStatus a w)
     @ '',pid='' @ itoa (Getpid h)
     @ '',uptime='' @ itoa (GetUptime a w)"

definition Handle ::
  "host \<Rightarrow> CommandHandler \<Rightarrow> nat option \<Rightarrow> Command \<Rightarrow> world \<Rightarrow> handle_result outcome" where
  "Handle h handler ctx cmd w =
     (case handler of
        StopHandler cancelFunc \<Rightarrow>
          (let w1 = log_Printf Log_stop_handler w;
               w2 = (case ctx of Some a \<Rightarrow> SetStatus a StatusStopping w1 | None \<Rightarrow> w1);
               res = (Some \<lparr>Success = True, Message = ''Shutdown signal sent'',
                            res_RequestID = cmd_RequestID cmd\<rparr>, None)
           in case cancelFunc of
                None \<Rightarrow> Return res w2
              | Some f \<Rightarrow>
                  (case f w2 of
                     Return u w3 \<Rightarrow> Return res w3
                   | Exit code w3 \<Rightarrow> Exit code w3
                   | Panic w3 \<Rightarrow> Panic w3))
      | StatusHandler \<Rightarrow>
          (let status = (case ctx of Some a \<Rightarrow> GetStatus a w | None \<Rightarrow> StatusUnknown)
           in Return (Some \<lparr>Success = True, Message = NodeStatus_string status,
                            res_RequestID = cmd_RequestID cmd\<rparr>, None) w)
      | RestartHandler nodeCtx \<Rightarrow>
          (let w1 = log_Printf Log_restart_handler w;
               w2 = (case nodeCtx of
                       Some a \<Rightarrow> Cancel a (SetStatus a StatusStopping w1)
                     | None \<Rightarrow> w1)
           in Return (Some \<lparr>Success = True, Message = ''Restart initiated'',
                            res_RequestID = cmd_RequestID cmd\<rparr>, None) w2)
      | QueryHandler \<Rightarrow>
          (case ctx of
             None \<Rightarrow>
               Return (Some \<lparr>Success = False, Message = ''Node context not available'',
                              res_RequestID = cmd_RequestID cmd\<rparr>, None) w
           | Some a \<Rightarrow>
               Return (Some \<lparr>Success = True, Message = formatNodeInfo h a w,
                              res_RequestID = cmd_RequestID cmd\<rparr>, None) w)
      | CustomHandler name f \<Rightarrow> f ctx cmd w)"

section \<open>The command receiver (pkg/sync/command.go)\<close>

datatype ReceiverStatus = ReceiverStatusStopped | ReceiverStatusRunning | ReceiverStatusError

text \<open>
  The state of a \<open>mqtt.Client\<close> of the paho library, as far as the code reads it.
\<close>

record paho_client =
  paho_connected :: bool
  paho_subscriptions :: "string list"

text \<open>
  \<open>r_cancelFunc\<close> is \<open>None\<close> while the field is \<open>nil\<close>; once \<open>Start\<close> has made the
  derived context, it is \<open>Some b\<close> with \<open>b\<close> telling whether the function has been
  called. The context of the heartbeat loop is done once it has been, or once the
  context it derives from is cancelled.
\<close>

record CommandReceiver =
  r_nodeName :: string
  r_instanceID :: string
  r_brokerURL :: string
  r_client :: "paho_client option"
  handlers :: "string \<Rightarrow> CommandHandler option"
  r_status :: ReceiverStatus
  r_nodeCtx :: "nat option"
  r_cancelFunc :: "bool option"

definition TopicHeartbeat :: "string \<Rightarrow> string" where
  "TopicHeartbeat n = ''v1/subapp/pcs/'' @ n @ ''/heartbeat''"

definition TopicRegister :: "string \<Rightarrow> string" where
  "TopicRegister n = ''v1/subapp/pcs/'' @ n @ ''/register''"

definition TopicControl :: "string \<Rightarrow> string" where
  "TopicControl n = ''v1/subapp/pcs/'' @ n @ ''/control''"

definition NewCommandReceiverWithInstanceID :: "string \<Rightarrow> string \<Rightarrow> string \<Rightarrow> CommandReceiver" where
  "NewCommandReceiverWithInstanceID nodeName instanceID brokerURL =
     \<lparr>r_nodeName = nodeName, r_instanceID = instanceID, r_brokerURL = brokerURL,
      r_client = None, handlers = Map.empty, r_status = ReceiverStatusStopped,
      r_nodeCtx = None, r_cancelFunc = None\<rparr>"

definition NewCommandReceiver :: "string \<Rightarrow> string \<Rightarrow> CommandReceiver" where
  "NewCommandReceiver nodeName brokerURL =
     \<lparr>r_nodeName = nodeName, r_instanceID = nodeName, r_brokerURL = brokerURL,
      r_client = None, handlers = Map.empty, r_status = ReceiverStatusStopped,
      r_nodeCtx = None, r_cancelFunc = None\<rparr>"

definition RegisterHandler :: "string \<Rightarrow> CommandHandler \<Rightarrow> CommandReceiver \<Rightarrow> CommandReceiver" where
  "RegisterHandler command handler r = r\<lparr>handlers := (handlers r)(command \<mapsto> handler)\<rparr>"

text \<open>
  \<open>handleControlMessage\<close>. The decoder \<open>json.Unmarshal\<close> into a \<open>Command\<close> is a
  parameter: \<open>None\<close> when it returns an error.
\<close>

definition handleControlMessage ::
  "host \<Rightarrow> (string \<Rightarrow> Command option) \<Rightarrow> CommandReceiver \<Rightarrow> string \<Rightarrow> world \<Rightarrow> unit outcome" where
  "handleControlMessage h json_Unmarshal r payload w =
     (case json_Unmarshal payload of
        None \<Rightarrow> Return () (log_Printf (Log_parse_failed (r_nodeName r)) w)
      | Some cmd \<Rightarrow>
          (let w1 = log_Printf (Log_command_received (r_nodeName r) (cmd_Command cmd)) w
           in case handlers r (cmd_Command cmd) of
                Some handler \<Rightarrow>
                  (case Handle h handler (r_nodeCtx r) cmd w1 of
                     Return (result, err) w2 \<Rightarrow>
                       (case err of
                          Some e \<Rightarrow> Return () (log_Printf (Log_command_failed (r_nodeName r) e) w2)
                        | None \<Rightarrow> Return () (log_Printf (Log_command_result (r_nodeName r) result) w2))
                   | Exit code w2 \<Rightarrow> Exit code w2
                   | Panic w2 \<Rightarrow> Panic w2)
              | None \<Rightarrow> Return () (log_Printf (Log_no_handler (r_nodeName r) (cmd_Command cmd)) w1)))"

definition sendRegisterMessage :: "CommandReceiver \<Rightarrow> world \<Rightarrow> world" where
  "sendRegisterMessage r w =
     log_Printf (Log_register_sent (r_instanceID r))
       (w\<lparr>published := published w @ [Pub_register (TopicRegister (r_nodeName r))]\<rparr>)"

definition sendHeartbeat :: "CommandReceiver \<Rightarrow> world \<Rightarrow> world" where
  "sendHeartbeat r w =
     (case r_client r of
        None \<Rightarrow> w
      | Some c \<Rightarrow>
          if \<not> paho_connected c then w
          else w\<lparr>published := published w @ [Pub_heartbeat (TopicHeartbeat (r_nodeName r)) (clock w)]\<rparr>)"

text \<open>
  \<open>heartbeatLoop\<close> on a logical clock. The ticker is made when the loop is entered, at
  the instant \<open>clock w\<close>, and ticks every \<open>30 * time.Second\<close> from then on; the loop
  sleeps one second, sends, and then sends at every tick until its context is done. The
  number of ticks that arrive before the context is done is the parameter \<open>ticks\<close>;
  \<open>heartbeat_select\<close> is the \<open>for\<close>/\<open>select\<close>, \<open>next_tick\<close> the instant of the tick
  it waits for.
\<close>

fun heartbeat_select :: "CommandReceiver \<Rightarrow> nat \<Rightarrow> int \<Rightarrow> world \<Rightarrow> world" where
  "heartbeat_select r 0 next_tick w = log_Printf (Log_heartbeat_exit (r_nodeName r)) w"
| "heartbeat_select r (Suc n) next_tick w =
     heartbeat_select r n (next_tick + 30 * Second) (sendHeartbeat r (w\<lparr>clock := next_tick\<rparr>))"

definition heartbeatLoop :: "CommandReceiver \<Rightarrow> nat \<Rightarrow> world \<Rightarrow> world" where
  "heartbeatLoop r ticks w =
     (let first_tick = clock w + 30 * Second;
          w1 = sendHeartbeat r (w\<lparr>clock := clock w + 1 * Second\<rparr>)
      in heartbeat_select r ticks first_tick w1)"

text \<open>
  \<open>Start\<close>. \<open>ctx_nodeCtx\<close> is what \<open>GetNodeContextFromContext(ctx)\<close> finds in the
  context passed in. The \<open>OnConnect\<close> callback runs when the connection is made.
\<close>

definition Start ::
  "host \<Rightarrow> CommandReceiver \<Rightarrow> nat option \<Rightarrow> world \<Rightarrow> string option \<times> CommandReceiver \<times> world" where
  "Start h r ctx_nodeCtx w =
     (let (a, w1) = (case ctx_nodeCtx of
                       Some a \<Rightarrow> (a, w)
                     | None \<Rightarrow> NewNodeContext (r_nodeName r) [] w);
          r1 = r\<lparr>r_nodeCtx := Some a, r_cancelFunc := Some False\<rparr>
      in if \<not> mqtt_Connect_ok h (r_brokerURL r)
         then (Some ''MQTT connect failed'',
               r1\<lparr>r_client := Some \<lparr>paho_connected = False, paho_subscriptions = []\<rparr>,
                  r_status := ReceiverStatusError\<rparr>, w1)
         else
           (let r2 = r1\<lparr>r_client := Some \<lparr>paho_connected = True,
                                          paho_subscriptions = [TopicControl (r_nodeName r)]\<rparr>\<rparr>;
                w2 = log_Printf (Log_receiver_connected (r_instanceID r)) w1;
                w3 = log_Printf (Log_subscribed (r_instanceID r) (TopicControl (r_nodeName r))) w2;
                w4 = sendRegisterMessage r2 w3;
                r3 = r2\<lparr>r_status := ReceiverStatusRunning\<rparr>;
                w5 = SetStatus a StatusRunning w4
            in (None, r3, go Go_heartbeatLoop w5)))"

definition CommandReceiver_Stop :: "CommandReceiver \<Rightarrow> CommandReceiver" where
  "CommandReceiver_Stop r =
     (let r1 = (case r_cancelFunc r of Some b \<Rightarrow> r\<lparr>r_cancelFunc := Some True\<rparr> | None \<Rightarrow> r);
          r2 = (case r_client r1 of
                  Some c \<Rightarrow>
                    if paho_connected c
                    then r1\<lparr>r_client := Some \<lparr>paho_connected = False,
                           paho_subscriptions = removeAll (TopicControl (r_nodeName r1)) (paho_subscriptions c)\<rparr>\<rparr>
                    else r1
                | None \<Rightarrow> r1)
      in r2\<lparr>r_status := ReceiverStatusStopped\<rparr>)"

section \<open>The MQTT transport (pkg/transport/mqtt.go)\<close>

text \<open>
  \<open>mc_connected\<close> is the field \<open>connected\<close>, set by the \<open>onConnect\<close> callback when the
  connection is made and cleared by \<open>onConnectionLost\<close>; \<open>mc_onControl\<close> is the action
  callback, \<open>None\<close> while it is \<open>nil\<close>.
\<close>

record MQTTClient =
  mc_NodeName :: string
  mc_client :: paho_client
  mc_connected :: bool
  mc_controlTopic :: string
  mc_onControl :: "unit option"

definition ControlTopic :: "string \<Rightarrow> string" where
  "ControlTopic n = ''v1/node/sync/'' @ n @ ''/control''"

definition NewMQTTClientWithID :: "string \<Rightarrow> string \<Rightarrow> string \<Rightarrow> MQTTClient" where
  "NewMQTTClientWithID nodeName clientID brokerURL =
     \<lparr>mc_NodeName = nodeName,
      mc_client = \<lparr>paho_connected = False, paho_subscriptions = []\<rparr>,
      mc_connected = False, mc_controlTopic = ControlTopic nodeName, mc_onControl = None\<rparr>"

definition Connect :: "host \<Rightarrow> string \<Rightarrow> MQTTClient \<Rightarrow> string option \<times> MQTTClient" where
  "Connect h brokerURL m =
     (if \<not> mqtt_Connect_ok h brokerURL then (Some ''connect failed'', m)
      else (None, m\<lparr>mc_client := \<lparr>paho_connected = True, paho_subscriptions = [mc_controlTopic m]\<rparr>,
                     mc_connected := True\<rparr>))"

definition Disconnect :: "MQTTClient \<Rightarrow> MQTTClient" where
  "Disconnect m =
     (if mc_connected m
      then m\<lparr>mc_client := \<lparr>paho_connected = False,
               paho_subscriptions = removeAll (mc_controlTopic m) (paho_subscriptions (mc_client m))\<rparr>\<rparr>
      else m)"

definition SetControlHandler :: "MQTTClient \<Rightarrow> MQTTClient" where
  "SetControlHandler m = m\<lparr>mc_onControl := Some ()\<rparr>"

section \<open>The instance (pkg/node/node.go)\<close>

definition DefaultMQTTBroker :: string where
  "DefaultMQTTBroker = ''tcp://127.0.0.1:1883''"

definition ReconnectInterval :: int where
  "ReconnectInterval = 15 * Minute"

text \<open>The constant \<open>HeartbeatInterval\<close>; the field of \<open>Config\<close> has the name.\<close>

definition const_HeartbeatInterval :: int where
  "const_HeartbeatInterval = 30 * Second"

record Config =
  MQTTBroker :: string
  MQTTUsername :: string
  MQTTPassword :: string
  EngineEndpoint :: string
  HeartbeatInterval :: int
  EnableFileLock :: bool
  Metadata :: "(string \<times> string) list"

text \<open>
  \<open>cancel\<close> is \<open>None\<close> while the field is \<open>nil\<close>, and \<open>Some b\<close> once the context
  exists, \<open>b\<close> telling whether \<open>cancel\<close> has been called (\<open>ctx.Done()\<close> is closed).
\<close>

record Instance =
  NodeName :: string
  InstanceID :: string
  Hostname :: string
  PID :: int
  mqttClient :: "MQTTClient option"
  receiver :: "CommandReceiver option"
  inst_connected :: bool
  cancel :: "bool option"
  fileLock :: "FileLock option"
  config :: Config

datatype register_error =
  Err_nodeName_is_required
  | Err_another_instance_running string

definition getEnvOrDefault :: "string \<Rightarrow> string \<Rightarrow> string" where
  "getEnvOrDefault v def = (if v = [] then def else v)"

definition getMQTTBroker :: "host \<Rightarrow> string" where
  "getMQTTBroker h =
     (if (GOOS h = ''windows'' \<or> GOOS h = ''darwin'') \<and> env_MQTT_BROKER_URL h \<noteq> []
      then env_MQTT_BROKER_URL h
      else getEnvOrDefault (env_MQTT_BROKER_URL h) DefaultMQTTBroker)"

definition DefaultConfig :: "host \<Rightarrow> Config" where
  "DefaultConfig h =
     \<lparr>MQTTBroker = getMQTTBroker h, MQTTUsername = [], MQTTPassword = [],
      EngineEndpoint = [], HeartbeatInterval = const_HeartbeatInterval,
      EnableFileLock = False, Metadata = []\<rparr>"

definition GetInstanceID :: "host \<Rightarrow> string \<Rightarrow> string" where
  "GetInstanceID h nodeName =
     nodeName @ ''-'' @ (case os_Hostname h of Some n \<Rightarrow> n | None \<Rightarrow> ''unknown'')
     @ ''-'' @ itoa (Getpid h)"

definition connectMQTT :: "host \<Rightarrow> Instance \<Rightarrow> world \<Rightarrow> string option \<times> Instance \<times> world" where
  "connectMQTT h inst w =
     (let brokerURL = (if MQTTBroker (config inst) = [] then getMQTTBroker h
                       else MQTTBroker (config inst));
          mqttClient0 = NewMQTTClientWithID (NodeName inst) (InstanceID inst) brokerURL
      in case Connect h brokerURL mqttClient0 of
           (Some err, m) \<Rightarrow> (Some err, inst, w)
         | (None, m) \<Rightarrow>
             (None,
              inst\<lparr>mqttClient := Some (SetControlHandler m), inst_connected := True\<rparr>,
              go (Go_startCommandReceiver brokerURL) w))"

text \<open>
  \<open>RegisterWithConfig\<close>. \<open>config_ptr\<close> is the pointer \<open>config\<close>, \<open>None\<close> for
  \<open>nil\<close>, whose first use, \<open>config.EnableFileLock\<close>, panics on \<open>nil\<close>; \<open>cur\<close> is the
  package variable \<open>currentInstance\<close>, returned with the error.
\<close>

definition RegisterWithConfig ::
  "host \<Rightarrow> string \<Rightarrow> Config option \<Rightarrow> Instance option \<Rightarrow> world
   \<Rightarrow> (register_error option \<times> Instance option) outcome" where
  "RegisterWithConfig h nodeName config_ptr cur w =
     (if nodeName = [] then Return (Some Err_nodeName_is_required, cur) w
      else case config_ptr of
        None \<Rightarrow> Panic w
      | Some cfg \<Rightarrow>
          (case (if EnableFileLock cfg
                 then (case AcquireLock h nodeName (fs w) of
                         (None, fs1) \<Rightarrow> Inl (w\<lparr>fs := fs1\<rparr>)
                       | (Some lk, fs1) \<Rightarrow>
                           Inr (Some lk,
                                log_Printf (Log_lock_acquired (GetLockFilePath h nodeName))
                                  (w\<lparr>fs := fs1\<rparr>)))
                 else Inr (None, w)) of
             Inl w1 \<Rightarrow> Return (Some (Err_another_instance_running nodeName), cur) w1
           | Inr (lk, w1) \<Rightarrow>
               (let hostname = (case os_Hostname h of Some n \<Rightarrow> n | None \<Rightarrow> []);
                    instance = \<lparr>NodeName = nodeName, InstanceID = GetInstanceID h nodeName,
                                Hostname = hostname, PID = Getpid h, mqttClient = None,
                                receiver = None, inst_connected = False, cancel = Some False,
                                fileLock = lk, config = cfg\<rparr>;
                    w2 = log_Printf (Log_instance_info nodeName (InstanceID instance) hostname
                                       (PID instance)) w1;
                    (inst1, w3) =
                      (case connectMQTT h instance w2 of
                         (Some err, i, w') \<Rightarrow>
                           (i, go Go_startReconnectLoop
                                 (log_Printf Log_mqtt_initial_connect_failed w'))
                       | (None, i, w') \<Rightarrow> (i, log_Printf (Log_mqtt_connected (InstanceID i)) w'));
                    w4 = (if http_register_ok h then w3
                          else log_Printf Log_http_register_failed w3)
                in Return (None, Some inst1) w4)))"

definition Register ::
  "host \<Rightarrow> string \<Rightarrow> Instance option \<Rightarrow> world \<Rightarrow> (register_error option \<times> Instance option) outcome" where
  "Register h nodeName cur w = RegisterWithConfig h nodeName (Some (DefaultConfig h)) cur w"

definition RegisterWithLock ::
  "host \<Rightarrow> string \<Rightarrow> Instance option \<Rightarrow> world \<Rightarrow> (register_error option \<times> Instance option) outcome" where
  "RegisterWithLock h nodeName cur w =
     RegisterWithConfig h nodeName (Some ((DefaultConfig h)\<lparr>EnableFileLock := True\<rparr>)) cur w"

definition Stop :: "Instance \<Rightarrow> world \<Rightarrow> Instance \<times> world" where
  "Stop inst w =
     (let inst1 = (case cancel inst of Some b \<Rightarrow> inst\<lparr>cancel := Some True\<rparr> | None \<Rightarrow> inst);
          inst2 = (case mqttClient inst1 of
                     Some m \<Rightarrow> inst1\<lparr>mqttClient := Some (Disconnect m)\<rparr>
                   | None \<Rightarrow> inst1);
          inst3 = (case receiver inst2 of
                     Some r \<Rightarrow> inst2\<lparr>receiver := Some (CommandReceiver_Stop r)\<rparr>
                   | None \<Rightarrow> inst2)
      in case fileLock inst3 of
           Some lk \<Rightarrow>
             (inst3, log_Printf (Log_lock_released (NodeName inst3))
                       (w\<lparr>fs := Release (Some lk) (fs w)\<rparr>))
         | None \<Rightarrow> (inst3, w))"

definition handleControl :: "Instance \<Rightarrow> string \<Rightarrow> world \<Rightarrow> Instance outcome" where
  "handleControl inst action w =
     (let w1 = log_Printf (Log_control_action action) w
      in if action = ''stop'' then Exit 0 (log_Printf Log_control_stop w1)
         else if action = ''restart'' then
           (case Stop inst (log_Printf Log_control_restart w1) of
              (inst1, w2) \<Rightarrow> Exit 0 w2)
         else Return inst w1)"

text \<open>
  \<open>startCommandReceiver\<close>. The closure given to \<open>NewStopHandler\<close> logs and calls
  \<open>os.Exit(0)\<close>. The context passed to \<open>Start\<close> is \<open>inst.ctx\<close>, made from
  \<open>context.Background()\<close>, which holds no \<open>NodeContext\<close>.
\<close>

definition startCommandReceiver :: "host \<Rightarrow> Instance \<Rightarrow> string \<Rightarrow> world \<Rightarrow> Instance \<times> world" where
  "startCommandReceiver h inst brokerURL w =
     (let receiver0 = NewCommandReceiverWithInstanceID (NodeName inst) (InstanceID inst) brokerURL;
          r1 = RegisterHandler ''stop''
                 (StopHandler (Some (\<lambda>w'. Exit 0 (log_Printf (Log_exit_on_stop (InstanceID inst)) w'))))
                 receiver0;
          r2 = RegisterHandler ''status'' StatusHandler r1;
          r3 = RegisterHandler ''query'' QueryHandler r2
      in case Start h r3 None w of
           (Some err, r4, w1) \<Rightarrow>
             (inst\<lparr>receiver := Some r4\<rparr>,
              log_Printf (Log_receiver_start_failed (InstanceID inst)) w1)
         | (None, r4, w1) \<Rightarrow>
             (inst\<lparr>receiver := Some r4\<rparr>,
              log_Printf (Log_receiver_started (InstanceID inst) brokerURL) w1))"

definition IsAnotherInstanceRunning :: "host \<Rightarrow> string \<Rightarrow> filesystem \<Rightarrow> (bool \<times> int) \<times> filesystem" where
  "IsAnotherInstanceRunning h nodeName fs0 = IsLocked h nodeName fs0"

definition Shutdown :: "Instance option \<Rightarrow> world \<Rightarrow> Instance option \<times> world" where
  "Shutdown cur w =
     (case cur of
        Some inst \<Rightarrow> (None, snd (Stop inst w))
      | None \<Rightarrow> (None, w))"

text \<open>
  \<open>onControlMessage\<close> of the transport client, whose action callback is
  \<open>inst.handleControl\<close> once \<open>connectMQTT\<close> has set it. The decoder of the
  \<open>action\<close> field is a parameter, \<open>None\<close> when \<open>json.Unmarshal\<close> returns an error.
\<close>

definition onControlMessage ::
  "(string \<Rightarrow> string option) \<Rightarrow> Instance \<Rightarrow> MQTTClient \<Rightarrow> string \<Rightarrow> world \<Rightarrow> Instance outcome" where
  "onControlMessage json_action inst m payload w =
     (case json_action payload of
        None \<Rightarrow> Return inst (log_Printf Log_transport_parse_failed w)
      | Some action \<Rightarrow>
          (case mc_onControl m of
             Some cb \<Rightarrow> handleControl inst action w
           | None \<Rightarrow> Return inst w))"

section \<open>AcquireApplicationLock, one system call at a time\<close>

text \<open>
  Two processes that start together interleave the system calls of
  \<open>AcquireApplicationLock\<close>. Each call is atomic; between two calls of one process the
  other may run. The program counter says which call comes next; the liveness probe is
  taken together with the read.
\<close>

datatype acquire_pc =
  At_Stat | At_ReadFile | At_Remove | At_OpenFile | At_Fprintf os_File
  | Returned "os_File option \<times> string"

definition acquire_step :: "host \<Rightarrow> string \<Rightarrow> acquire_pc \<Rightarrow> filesystem \<Rightarrow> acquire_pc \<times> filesystem" where
  "acquire_step h appName pc fs0 =
     (let lockPath = filepath_Join h (TempDir h) (appName @ ''.lock'') in
      case pc of
        At_Stat \<Rightarrow>
          (case os_Stat lockPath fs0 of
             (None, fs1) \<Rightarrow> (At_ReadFile, fs1)
           | (Some err, fs1) \<Rightarrow> (At_OpenFile, fs1))
      | At_ReadFile \<Rightarrow>
          (case os_ReadFile lockPath fs0 of
             (Inr pidBytes, fs1) \<Rightarrow>
               (case Atoi pidBytes of
                  Some pid \<Rightarrow>
                    if isProcessRunning h pid then (Returned (None, []), fs1)
                    else (At_Remove, fs1)
                | None \<Rightarrow> (At_Remove, fs1))
           | (Inl readErr, fs1) \<Rightarrow> (At_Remove, fs1))
      | At_Remove \<Rightarrow> (At_OpenFile, snd (os_Remove lockPath fs0))
      | At_OpenFile \<Rightarrow>
          (case os_OpenFile_excl h lockPath fs0 of
             (Inl err, fs1) \<Rightarrow> (Returned (None, []), fs1)
           | (Inr f, fs1) \<Rightarrow> (At_Fprintf f, fs1))
      | At_Fprintf f \<Rightarrow> (Returned (Some f, lockPath), Fprintf_d f (Getpid h) fs0)
      | Returned r \<Rightarrow> (Returned r, fs0))"

fun acquire_run :: "host \<Rightarrow> string \<Rightarrow> nat \<Rightarrow> acquire_pc \<times> filesystem \<Rightarrow> acquire_pc \<times> filesystem" where
  "acquire_run h appName 0 s = s"
| "acquire_run h appName (Suc n) s =
     acquire_run h appName n (acquire_step h appName (fst s) (snd s))"

text \<open>
  A schedule is the list of turns: \<open>True\<close> lets the first process make its next call,
  \<open>False\<close> the second.
\<close>

fun interleave ::
  "host \<Rightarrow> host \<Rightarrow> string \<Rightarrow> bool list \<Rightarrow> acquire_pc \<times> acquire_pc \<times> filesystem
   \<Rightarrow> acquire_pc \<times> acquire_pc \<times> filesystem" where
  "interleave hA hB appName [] s = s"
| "interleave hA hB appName (turn # turns) (pcA, pcB, fs0) =
     (if turn
      then (case acquire_step hA appName pcA fs0 of
              (pcA', fs1) \<Rightarrow> interleave hA hB appName turns (pcA', pcB, fs1))
      else (case acquire_step hB appName pcB fs0 of
              (pcB', fs1) \<Rightarrow> interleave hA hB appName turns (pcA, pcB', fs1)))"

section \<open>Concrete hosts and states\<close>

text \<open>
  A Linux host on which the calling process has PID 5000, PIDs 4242 and 4343 are
  processes of the same user, PID 812 is a process of another user, and no other PID is
  in use. The process may create files in \<open>/tmp\<close>. The broker and the registration
  endpoint answer.
\<close>

definition linux_host :: host where
  "linux_host =
     \<lparr>TempDir = ''/tmp'', filepath_Join = (\<lambda>a b. a @ ''/'' @ b), GOOS = ''linux'',
      procs = (\<lambda>p. if p = 5000 \<or> p = 4242 \<or> p = 4343 then Signalable
                    else if p = 812 then NotPermitted else NoSuchProcess),
      Getpid = 5000, may_create = (\<lambda>p. True), os_Hostname = Some ''node1'',
      env_MQTT_BROKER_URL = [], mqtt_Connect_ok = (\<lambda>u. True), http_register_ok = True\<rparr>"

text \<open>The same host for a process that may create no file in the temporary directory.\<close>

definition readonly_tmp_host :: host where
  "readonly_tmp_host = linux_host\<lparr>may_create := (\<lambda>p. False)\<rparr>"

definition offline_host :: host where
  "offline_host = linux_host\<lparr>mqtt_Connect_ok := (\<lambda>u. False), http_register_ok := False\<rparr>"

text \<open>
  The file system whose only file is the lock record of \<open>svc\<close>: \<open>lock_fs\<close> with a
  record that the caller may remove, \<open>foreign_lock_fs\<close> with a record that it may not
  (the record of another user, in the sticky \<open>/tmp\<close>).
\<close>

definition lock_fs :: "string \<Rightarrow> bool \<Rightarrow> filesystem" where
  "lock_fs c r =
     Map.empty(''/tmp/svc.lock'' \<mapsto> \<lparr>content = c, readable = r, removable = True\<rparr>)"

definition foreign_lock_fs :: "string \<Rightarrow> bool \<Rightarrow> filesystem" where
  "foreign_lock_fs c r =
     Map.empty(''/tmp/svc.lock'' \<mapsto> \<lparr>content = c, readable = r, removable = False\<rparr>)"

definition boot_world :: "filesystem \<Rightarrow> world" where
  "boot_world fs0 =
     \<lparr>fs = fs0, ctxs = Map.empty, next_ctx = 0, clock = 0, logs = [], hooks_run = [],
      published = [], spawned = []\<rparr>"

text \<open>A decoder that understands the bare command name and nothing else.\<close>

definition toy_decoder :: "string \<Rightarrow> Command option" where
  "toy_decoder payload =
     (if payload = ''{'' then None
      else Some \<lparr>cmd_Command = payload, cmd_Timestamp = [], cmd_RequestID = ''r1'',
                 cmd_Parameters = []\<rparr>)"

text \<open>A second process of the same user, PID 4242, on the same host.\<close>

definition other_host :: host where
  "other_host = linux_host\<lparr>Getpid := 4242\<rparr>"

text \<open>The default configuration with the heartbeat period set to ten seconds.\<close>

definition ten_second_config :: Config where
  "ten_second_config = (DefaultConfig linux_host)\<lparr>HeartbeatInterval := 10 * Second\<rparr>"

text \<open>A decoder of the \<open>action\<close> field, in the same way.\<close>

definition toy_action_decoder :: "string \<Rightarrow> string option" where
  "toy_action_decoder payload = (if payload = ''{'' then None else Some payload)"

text \<open>
  The instance \<open>svc\<close> on the Linux host: the process state once \<open>RegisterWithLock\<close>
  has returned, and then, once the goroutine \<open>startCommandReceiver\<close> has run, the
  receiver, the instance, and the process state. Lemmas \<open>svc_registered\<close> and
  \<open>svc_started_eq\<close> below show that the run passes through exactly these states.
\<close>

definition svc_registered_world :: world where
  "svc_registered_world =
     \<lparr>fs = lock_fs ''5000'' True, ctxs = Map.empty, next_ctx = 0, clock = 0,
      logs = [Log_lock_acquired ''/tmp/svc.lock'',
              Log_instance_info ''svc'' ''svc-node1-5000'' ''node1'' 5000,
              Log_mqtt_connected ''svc-node1-5000''],
      hooks_run = [], published = [],
      spawned = [Go_startCommandReceiver ''tcp://127.0.0.1:1883'']\<rparr>"

definition svc_receiver :: CommandReceiver where
  "svc_receiver =
     \<lparr>r_nodeName = ''svc'', r_instanceID = ''svc-node1-5000'',
      r_brokerURL = ''tcp://127.0.0.1:1883'',
      r_client = Some \<lparr>paho_connected = True,
                        paho_subscriptions = [''v1/subapp/pcs/svc/control'']\<rparr>,
      handlers = [''stop'' \<mapsto> StopHandler
                     (Some (\<lambda>w'. Exit 0 (log_Printf (Log_exit_on_stop ''svc-node1-5000'') w'))),
                  ''status'' \<mapsto> StatusHandler, ''query'' \<mapsto> QueryHandler],
      r_status = ReceiverStatusRunning, r_nodeCtx = Some 0, r_cancelFunc = Some False\<rparr>"

definition svc_instance :: Instance where
  "svc_instance =
     \<lparr>NodeName = ''svc'', InstanceID = ''svc-node1-5000'', Hostname = ''node1'', PID = 5000,
      mqttClient = Some \<lparr>mc_NodeName = ''svc'',
         mc_client = \<lparr>paho_connected = True,
                      paho_subscriptions = [''v1/node/sync/svc/control'']\<rparr>,
         mc_connected = True, mc_controlTopic = ''v1/node/sync/svc/control'',
         mc_onControl = Some ()\<rparr>,
      receiver = Some svc_receiver, inst_connected = True, cancel = Some False,
      fileLock = Some \<lparr>File = Some (os_File ''/tmp/svc.lock''), Path = ''/tmp/svc.lock''\<rparr>,
      config = (DefaultConfig linux_host)\<lparr>EnableFileLock := True\<rparr>\<rparr>"

definition svc_world :: world where
  "svc_world =
     \<lparr>fs = lock_fs ''5000'' True,
      ctxs = [0 \<mapsto> \<lparr>nc_cancelled = False, nc_nodeName = ''svc'', nc_version = [],
                      nc_status = Some StatusRunning, nc_startTime = 0, shutdownHooks = []\<rparr>],
      next_ctx = 1, clock = 0,
      logs = [Log_lock_acquired ''/tmp/svc.lock'',
              Log_instance_info ''svc'' ''svc-node1-5000'' ''node1'' 5000,
              Log_mqtt_connected ''svc-node1-5000'',
              Log_receiver_connected ''svc-node1-5000'',
              Log_subscribed ''svc-node1-5000'' ''v1/subapp/pcs/svc/control'',
              Log_register_sent ''svc-node1-5000'',
              Log_receiver_started ''svc-node1-5000'' ''tcp://127.0.0.1:1883''],
      hooks_run = [], published = [Pub_register ''v1/subapp/pcs/svc/register''],
      spawned = [Go_startCommandReceiver ''tcp://127.0.0.1:1883'', Go_heartbeatLoop]\<rparr>"

section \<open>Reading an outcome\<close>

text \<open>
  \<open>returns_error\<close>: the call returned to its caller with a non-\<open>nil\<close> error.
  \<open>exit_code\<close>: the status with which the call ended the process, if it did.
  \<open>panics\<close>: the call panicked.
\<close>

definition returns_error :: "(register_error option \<times> Instance option) outcome \<Rightarrow> bool" where
  "returns_error out =
     (case out of
        Return (err, cur) w \<Rightarrow> err \<noteq> None
      | Exit code w \<Rightarrow> False
      | Panic w \<Rightarrow> False)"

definition exit_code :: "'a outcome \<Rightarrow> int option" where
  "exit_code out =
     (case out of
        Return x w \<Rightarrow> None
      | Exit code w \<Rightarrow> Some code
      | Panic w \<Rightarrow> None)"

definition panics :: "'a outcome \<Rightarrow> bool" where
  "panics out =
     (case out of
        Return x w \<Rightarrow> False
      | Exit code w \<Rightarrow> False
      | Panic w \<Rightarrow> True)"

text \<open>
  \<open>registered\<close>: the instance and the state that a successful registration leaves.
  \<open>svc_started\<close>: the run that registers \<open>svc\<close> with the file lock on the Linux host,
  from an empty file system, and then runs the goroutine \<open>startCommandReceiver\<close>.
\<close>

definition registered ::
  "(register_error option \<times> Instance option) outcome \<Rightarrow> (Instance \<times> world) option" where
  "registered out =
     (case out of
        Return (err, cur) w \<Rightarrow>
          (case err of
             None \<Rightarrow> (case cur of Some inst \<Rightarrow> Some (inst, w) | None \<Rightarrow> None)
           | Some e \<Rightarrow> None)
      | Exit code w \<Rightarrow> None
      | Panic w \<Rightarrow> None)"

definition svc_started :: "(Instance \<times> world) option" where
  "svc_started =
     (case registered (RegisterWithLock linux_host ''svc'' None (boot_world Map.empty)) of
        Some (inst, w) \<Rightarrow>
          Some (startCommandReceiver linux_host inst (getMQTTBroker linux_host) w)
      | None \<Rightarrow> None)"

text \<open>
  The heartbeats of one run: the instance is registered with \<open>cfg\<close>, the goroutine
  \<open>startCommandReceiver\<close> that \<open>connectMQTT\<close> spawned runs, then the goroutine
  \<open>heartbeatLoop\<close> that \<open>Start\<close> spawned runs and receives \<open>ticks\<close> ticks before
  its context is done. The result is what the loop published.
\<close>

definition heartbeats_of_run :: "host \<Rightarrow> string \<Rightarrow> Config \<Rightarrow> nat \<Rightarrow> world \<Rightarrow> publication list" where
  "heartbeats_of_run h nodeName cfg ticks w =
     (case RegisterWithConfig h nodeName (Some cfg) None w of
        Return (err, Some inst) w1 \<Rightarrow>
          (case startCommandReceiver h inst
                  (if MQTTBroker cfg = [] then getMQTTBroker h else MQTTBroker cfg) w1 of
             (inst2, w2) \<Rightarrow>
               (case receiver inst2 of
                  Some r \<Rightarrow> drop (length (published w2)) (published (heartbeatLoop r ticks w2))
                | None \<Rightarrow> []))
      | Return (err, None) w1 \<Rightarrow> []
      | Exit code w1 \<Rightarrow> []
      | Panic w1 \<Rightarrow> [])"

section \<open>Facts about the lock guard\<close>


lemma create_lock_absent:
  "P \<noteq> [] \<Longrightarrow> fs0 P = None \<Longrightarrow> may_create h P \<Longrightarrow>
   create_lock h P fs0 =
     ((Some (os_File P), P), fs0(P \<mapsto> \<lparr>content = itoa (Getpid h), readable = True, removable = True\<rparr>))"
  by (simp add: create_lock_def os_OpenFile_excl_def Fprintf_d_def lookup_def)

lemma create_lock_present:
  "P = [] \<or> fs0 P \<noteq> None \<or> \<not> may_create h P \<Longrightarrow> create_lock h P fs0 = ((None, []), fs0)"
  by (auto simp: create_lock_def os_OpenFile_excl_def split: option.splits)

lemma os_Remove_removable:
  "lookup fs0 P = Some f \<Longrightarrow> removable f \<Longrightarrow> snd (os_Remove P fs0) = fs0(P := None)"
  by (simp add: os_Remove_def)

lemma os_Remove_kept:
  "lookup fs0 P = Some f \<Longrightarrow> \<not> removable f \<Longrightarrow> snd (os_Remove P fs0) = fs0"
  by (simp add: os_Remove_def)

lemma create_lock_after_Remove:
  "lookup fs0 P = Some f \<Longrightarrow> removable f \<Longrightarrow> may_create h P \<Longrightarrow>
   create_lock h P (snd (os_Remove P fs0)) =
     ((Some (os_File P), P), fs0(P \<mapsto> \<lparr>content = itoa (Getpid h), readable = True, removable = True\<rparr>))"
  by (auto simp: os_Remove_removable create_lock_absent lookup_def split: if_splits)

lemma create_lock_after_failed_Remove:
  "lookup fs0 P = Some f \<Longrightarrow> \<not> removable f \<Longrightarrow>
   create_lock h P (snd (os_Remove P fs0)) = ((None, []), fs0)"
  by (auto simp: os_Remove_kept create_lock_present lookup_def split: if_splits)

lemma create_lock_denied_after_Remove:
  "lookup fs0 P = Some f \<Longrightarrow> removable f \<Longrightarrow> \<not> may_create h P \<Longrightarrow>
   create_lock h P (snd (os_Remove P fs0)) = ((None, []), fs0(P := None))"
  by (simp add: os_Remove_removable create_lock_present)

lemma Acquire_busy:
  assumes "lookup fs0 (GetLockFilePath h appName) = Some f" and "readable f"
    and "Atoi (content f) = Some pid" and "isProcessRunning h pid"
  shows "AcquireApplicationLock h appName fs0 = ((None, []), fs0)"
  using assms
  by (simp add: AcquireApplicationLock_def GetLockFilePath_def os_Stat_def os_ReadFile_def)

lemma Acquire_stale:
  assumes "lookup fs0 (GetLockFilePath h appName) = Some f"
    and "\<not> readable f \<or> (case Atoi (content f) of None \<Rightarrow> True | Some pid \<Rightarrow> \<not> isProcessRunning h pid)"
  shows "AcquireApplicationLock h appName fs0 =
     create_lock h (GetLockFilePath h appName) (snd (os_Remove (GetLockFilePath h appName) fs0))"
  using assms
  by (auto simp: AcquireApplicationLock_def GetLockFilePath_def os_Stat_def os_ReadFile_def Let_def
       split: option.splits)

lemma Acquire_reclaim:
  assumes "lookup fs0 (GetLockFilePath h appName) = Some f"
    and "\<not> readable f \<or> (case Atoi (content f) of None \<Rightarrow> True | Some pid \<Rightarrow> \<not> isProcessRunning h pid)"
    and "removable f" and "may_create h (GetLockFilePath h appName)"
  shows "AcquireApplicationLock h appName fs0 =
     ((Some (os_File (GetLockFilePath h appName)), GetLockFilePath h appName),
      fs0(GetLockFilePath h appName \<mapsto> \<lparr>content = itoa (Getpid h), readable = True, removable = True\<rparr>))"
  by (simp only: Acquire_stale [OF assms(1,2)] create_lock_after_Remove [OF assms(1,3,4)])

lemma Acquire_kept:
  assumes "lookup fs0 (GetLockFilePath h appName) = Some f"
    and "\<not> readable f \<or> (case Atoi (content f) of None \<Rightarrow> True | Some pid \<Rightarrow> \<not> isProcessRunning h pid)"
    and "\<not> removable f"
  shows "AcquireApplicationLock h appName fs0 = ((None, []), fs0)"
  by (simp only: Acquire_stale [OF assms(1,2)] create_lock_after_failed_Remove [OF assms(1,3)])

lemma Acquire_removed_not_created:
  assumes "lookup fs0 (GetLockFilePath h appName) = Some f"
    and "\<not> readable f \<or> (case Atoi (content f) of None \<Rightarrow> True | Some pid \<Rightarrow> \<not> isProcessRunning h pid)"
    and "removable f" and "\<not> may_create h (GetLockFilePath h appName)"
  shows "AcquireApplicationLock h appName fs0 =
     ((None, []), fs0(GetLockFilePath h appName := None))"
  by (simp only: Acquire_stale [OF assms(1,2)] create_lock_denied_after_Remove [OF assms(1,3,4)])

lemma Acquire_absent:
  assumes "lookup fs0 (GetLockFilePath h appName) = None"
  shows "AcquireApplicationLock h appName fs0 = create_lock h (GetLockFilePath h appName) fs0"
  using assms
  by (simp add: AcquireApplicationLock_def GetLockFilePath_def os_Stat_def)

lemma create_lock_success:
  assumes "create_lock h P fs0 = ((Some f, p), fs1)"
  shows "p = P \<and> p \<noteq> [] \<and> f = os_File p \<and> (\<exists>d. lookup fs1 p = Some d \<and> removable d)"
  using assms
  by (auto simp: create_lock_def os_OpenFile_excl_def Fprintf_d_def lookup_def
       split: option.splits if_splits)

lemma Acquire_success_path:
  assumes "AcquireApplicationLock h appName fs0 = ((Some f, p), fs1)"
  shows "p = GetLockFilePath h appName \<and> p \<noteq> [] \<and> f = os_File p
         \<and> (\<exists>d. lookup fs1 p = Some d \<and> removable d)"
proof (cases "lookup fs0 (GetLockFilePath h appName)")
  case None
  from assms show ?thesis
    unfolding Acquire_absent [OF None] by (rule create_lock_success)
next
  case (Some d)
  show ?thesis
  proof (cases "readable d \<and> (\<exists>pid. Atoi (content d) = Some pid \<and> isProcessRunning h pid)")
    case True
    then obtain pid where "readable d" "Atoi (content d) = Some pid" "isProcessRunning h pid"
      by blast
    from Acquire_busy [OF Some this] assms show ?thesis by simp
  next
    case False
    then have r: "\<not> readable d \<or> (case Atoi (content d) of None \<Rightarrow> True | Some pid \<Rightarrow> \<not> isProcessRunning h pid)"
      by (auto split: option.splits)
    from assms show ?thesis
      unfolding Acquire_stale [OF Some r] by (rule create_lock_success)
  qed
qed

lemma Release_removes:
  "Path lk \<noteq> [] \<Longrightarrow> \<forall>d. lookup fs0 (Path lk) = Some d \<longrightarrow> removable d \<Longrightarrow>
   lookup (Release (Some lk) fs0) (Path lk) = None"
  by (auto simp: Release_def ReleaseFileLock_def os_File_Close_def os_Remove_def lookup_def Let_def
        split: option.splits)

lemma AcquireLock_eq:
  "AcquireApplicationLock h appName fs0 = ((None, p), fs1) \<Longrightarrow> AcquireLock h appName fs0 = (None, fs1)"
  "AcquireApplicationLock h appName fs0 = ((Some f, p), fs1) \<Longrightarrow>
     AcquireLock h appName fs0 = (Some \<lparr>File = Some f, Path = p\<rparr>, fs1)"
  by (simp_all add: AcquireLock_def)

lemma IsLocked_absent:
  "lookup fs0 (GetLockFilePath h appName) = None \<Longrightarrow> IsLocked h appName fs0 = ((False, 0), fs0)"
  by (simp add: IsLocked_def os_Stat_def)

lemma IsLocked_unreadable:
  "lookup fs0 (GetLockFilePath h appName) = Some f \<Longrightarrow> \<not> readable f \<Longrightarrow>
   IsLocked h appName fs0 = ((True, 0), fs0)"
  by (simp add: IsLocked_def os_Stat_def os_ReadFile_def)

lemma IsLocked_readable:
  "lookup fs0 (GetLockFilePath h appName) = Some f \<Longrightarrow> readable f \<Longrightarrow>
   IsLocked h appName fs0 =
     ((case Atoi (content f) of
         None \<Rightarrow> (False, 0)
       | Some pid \<Rightarrow> if isProcessRunning h pid then (True, pid) else (False, 0)), fs0)"
  by (simp add: IsLocked_def os_Stat_def os_ReadFile_def split: option.splits)

lemma IsLocked_fs: "snd (IsLocked h appName fs0) = fs0"
  by (auto simp: IsLocked_def os_Stat_def os_ReadFile_def Let_def split: option.splits os_error.splits)

lemma linux_lock_path: "GetLockFilePath linux_host ''svc'' = ''/tmp/svc.lock''"
  by (simp add: GetLockFilePath_def linux_host_def)

lemma lookup_lock_fs: "lookup (lock_fs c r) ''/tmp/svc.lock'' = Some \<lparr>content = c, readable = r, removable = True\<rparr>"
  by (simp add: lookup_def lock_fs_def)

lemma Atoi_examples:
  "Atoi ''812'' = Some 812" "Atoi ''4242'' = Some 4242" "Atoi ''999'' = Some 999"
  "Atoi ''4343'' = Some 4343"
  "Atoi ''42x'' = None" "Atoi [] = None" "Atoi ''0'' = Some 0"
  by (simp_all add: Atoi_def digit_val_def)

lemma itoa_5000: "itoa 5000 = ''5000''"
  by (simp add: itoa_def nat_digits.simps)

lemma linux_probe:
  "isProcessRunning linux_host 4242" "isProcessRunning linux_host 4343"
  "\<not> isProcessRunning linux_host 812"
  "\<not> isProcessRunning linux_host 999" "live linux_host 812" "\<not> live linux_host 999"
  "Getpid linux_host = 5000" "may_create linux_host p" "GOOS linux_host \<noteq> ''windows''"
  by (simp_all add: isProcessRunning_def linux_host_def syscall_Kill0_def live_def)

lemma readonly_tmp_facts:
  "GetLockFilePath readonly_tmp_host ''svc'' = ''/tmp/svc.lock''"
  "\<not> may_create readonly_tmp_host p" "\<not> isProcessRunning readonly_tmp_host 999"
  "Getpid readonly_tmp_host = 5000"
  by (simp_all add: readonly_tmp_host_def linux_host_def GetLockFilePath_def isProcessRunning_def
        syscall_Kill0_def)

lemma lookup_foreign_lock_fs:
  "lookup (foreign_lock_fs c r) ''/tmp/svc.lock'' =
     Some \<lparr>content = c, readable = r, removable = False\<rparr>"
  by (simp add: lookup_def foreign_lock_fs_def)

lemma lock_fs_removed: "(lock_fs c r)(''/tmp/svc.lock'' := None) = Map.empty"
  by (simp add: lock_fs_def)

lemma svc_lock_reclaim:
  "create_lock linux_host ''/tmp/svc.lock'' (snd (os_Remove ''/tmp/svc.lock'' (lock_fs c r))) =
     ((Some (os_File ''/tmp/svc.lock''), ''/tmp/svc.lock''), lock_fs ''5000'' True)"
  "create_lock linux_host ''/tmp/svc.lock'' (snd (os_Remove ''/tmp/svc.lock'' (foreign_lock_fs c r))) =
     ((None, []), foreign_lock_fs c r)"
  "create_lock readonly_tmp_host ''/tmp/svc.lock'' (snd (os_Remove ''/tmp/svc.lock'' (lock_fs c r))) =
     ((None, []), Map.empty)"
  using create_lock_after_Remove [OF lookup_lock_fs, of c r linux_host]
    create_lock_after_failed_Remove [OF lookup_foreign_lock_fs, of c r linux_host]
    create_lock_denied_after_Remove [OF lookup_lock_fs, of c r readonly_tmp_host]
  by (simp_all add: linux_probe readonly_tmp_facts itoa_5000 lock_fs_def)

lemma lock_fs_upd: "(lock_fs c r)(''/tmp/svc.lock'' \<mapsto> \<lparr>content = c', readable = r', removable = True\<rparr>) = lock_fs c' r'"
  by (simp add: lock_fs_def)

section \<open>Release, then IsLocked\<close>

text \<open>
  Claim C9. For every application name, releasing the lock handle that \<open>AcquireLock\<close>
  returned for that name and then calling \<open>IsLocked\<close> on the same name returns
  not-locked with owner PID 0. The handle can only come from a successful exclusive
  creation, so its path is the non-empty lock path of the name and the record there is
  the caller's own, which \<open>Release\<close> removes.
\<close>

theorem Release_then_IsLocked:
  assumes "AcquireLock h appName fs0 = (Some lk, fs1)"
  shows "fst (IsLocked h appName (Release (Some lk) fs1)) = (False, 0)"
proof -
  obtain f p where a: "AcquireApplicationLock h appName fs0 = ((Some f, p), fs1)"
    and lk: "lk = \<lparr>File = Some f, Path = p\<rparr>"
    using assms by (auto simp: AcquireLock_def split: prod.splits option.splits)
  have p: "p = GetLockFilePath h appName" "p \<noteq> []"
    using Acquire_success_path[OF a] by blast+
  obtain d where d: "lookup fs1 p = Some d" "removable d"
    using Acquire_success_path[OF a] by blast
  have "lookup (Release (Some lk) fs1) p = None"
    using Release_removes [of lk fs1] p d by (simp add: lk)
  then show ?thesis using p by (simp add: IsLocked_absent)
qed

text \<open>On the Linux host, with no lock record, \<open>svc\<close> acquires the lock.\<close>

lemma linux_acquire_fresh:
  "AcquireLock linux_host ''svc'' Map.empty =
     (Some \<lparr>File = Some (os_File ''/tmp/svc.lock''), Path = ''/tmp/svc.lock''\<rparr>, lock_fs ''5000'' True)"
proof -
  have "lookup Map.empty (GetLockFilePath linux_host ''svc'') = None"
    by (simp add: lookup_def)
  from Acquire_absent[OF this]
  have "AcquireApplicationLock linux_host ''svc'' Map.empty =
      ((Some (os_File ''/tmp/svc.lock''), ''/tmp/svc.lock''), lock_fs ''5000'' True)"
    by (simp add: linux_lock_path create_lock_absent linux_probe itoa_5000 lock_fs_def)
  then show ?thesis by (rule AcquireLock_eq)
qed

theorem Release_then_IsLocked_witness:
  "AcquireLock linux_host ''svc'' Map.empty =
     (Some \<lparr>File = Some (os_File ''/tmp/svc.lock''), Path = ''/tmp/svc.lock''\<rparr>, lock_fs ''5000'' True)
   \<and> fst (IsLocked linux_host ''svc''
        (Release (Some \<lparr>File = Some (os_File ''/tmp/svc.lock''), Path = ''/tmp/svc.lock''\<rparr>)
           (lock_fs ''5000'' True))) = (False, 0)"
  using linux_acquire_fresh Release_then_IsLocked [OF linux_acquire_fresh] by simp

section \<open>IsLocked and Acquire on a damaged record\<close>

text \<open>
  Claim C10. When the lock file exists but cannot be read, \<open>IsLocked\<close> returns locked
  with owner PID 0; when it is readable but its content does not parse as a PID,
  \<open>IsLocked\<close> returns not-locked with PID 0. In both cases \<open>AcquireApplicationLock\<close>
  treats the record as reclaimable: it never reports it as held by a running owner, it
  calls \<open>os.Remove\<close> on the record, drops the error of that call, and goes on to the
  exclusive creation. When the record may be removed and the lock path may be created,
  the acquisition succeeds and a fresh record holds the caller's PID; when the record may
  not be removed, the creation finds it still there and the acquisition returns a nil
  handle and leaves the record; when the record is removed and the creation is refused,
  the acquisition returns a nil handle and no record is left. \<open>IsLocked\<close> leaves the file
  system as it found it, whatever the record.
\<close>

theorem IsLocked_damaged_record:
  "(lookup fs0 (GetLockFilePath h appName) = Some f \<and> \<not> readable f \<longrightarrow>
      fst (IsLocked h appName fs0) = (True, 0))
   \<and> (lookup fs0 (GetLockFilePath h appName) = Some f \<and> readable f \<and> Atoi (content f) = None \<longrightarrow>
      fst (IsLocked h appName fs0) = (False, 0))
   \<and> (lookup fs0 (GetLockFilePath h appName) = Some f
        \<and> (\<not> readable f \<or> Atoi (content f) = None) \<longrightarrow>
      AcquireApplicationLock h appName fs0 =
        create_lock h (GetLockFilePath h appName) (snd (os_Remove (GetLockFilePath h appName) fs0))
      \<and> (removable f \<and> may_create h (GetLockFilePath h appName) \<longrightarrow>
           AcquireApplicationLock h appName fs0 =
             ((Some (os_File (GetLockFilePath h appName)), GetLockFilePath h appName),
              fs0(GetLockFilePath h appName \<mapsto> \<lparr>content = itoa (Getpid h), readable = True, removable = True\<rparr>)))
      \<and> (\<not> removable f \<longrightarrow>
           AcquireApplicationLock h appName fs0 = ((None, []), fs0))
      \<and> (removable f \<and> \<not> may_create h (GetLockFilePath h appName) \<longrightarrow>
           AcquireApplicationLock h appName fs0 = ((None, []), fs0(GetLockFilePath h appName := None))))
   \<and> snd (IsLocked h appName fs0) = fs0"
proof -
  have 1: "fst (IsLocked h appName fs0) = (True, 0)"
    if "lookup fs0 (GetLockFilePath h appName) = Some f \<and> \<not> readable f"
    using that by (simp add: IsLocked_unreadable)
  have 2: "fst (IsLocked h appName fs0) = (False, 0)"
    if "lookup fs0 (GetLockFilePath h appName) = Some f \<and> readable f \<and> Atoi (content f) = None"
    using that by (simp add: IsLocked_readable)
  have 3: "AcquireApplicationLock h appName fs0 =
        create_lock h (GetLockFilePath h appName) (snd (os_Remove (GetLockFilePath h appName) fs0))
      \<and> (removable f \<and> may_create h (GetLockFilePath h appName) \<longrightarrow>
           AcquireApplicationLock h appName fs0 =
             ((Some (os_File (GetLockFilePath h appName)), GetLockFilePath h appName),
              fs0(GetLockFilePath h appName \<mapsto> \<lparr>content = itoa (Getpid h), readable = True, removable = True\<rparr>)))
      \<and> (\<not> removable f \<longrightarrow>
           AcquireApplicationLock h appName fs0 = ((None, []), fs0))
      \<and> (removable f \<and> \<not> may_create h (GetLockFilePath h appName) \<longrightarrow>
           AcquireApplicationLock h appName fs0 = ((None, []), fs0(GetLockFilePath h appName := None)))"
    if a: "lookup fs0 (GetLockFilePath h appName) = Some f \<and> (\<not> readable f \<or> Atoi (content f) = None)"
  proof -
    from a have l: "lookup fs0 (GetLockFilePath h appName) = Some f"
      and r: "\<not> readable f \<or> (case Atoi (content f) of None \<Rightarrow> True | Some pid \<Rightarrow> \<not> isProcessRunning h pid)"
      by auto
    show ?thesis
      using Acquire_stale [OF l r] Acquire_reclaim [OF l r] Acquire_kept [OF l r]
        Acquire_removed_not_created [OF l r]
      by blast
  qed
  have 4: "snd (IsLocked h appName fs0) = fs0" by (rule IsLocked_fs)
  from 1 2 3 4 show ?thesis by blast
qed

text \<open>
  Four records of \<open>svc\<close>: an unreadable one and a corrupt one that the caller may
  remove, an unreadable one of another user in a sticky directory, and a corrupt one in
  a directory where the caller may remove but not create.
\<close>

theorem IsLocked_damaged_record_witness:
  "lookup (lock_fs ''4242'' False) (GetLockFilePath linux_host ''svc'') =
     Some \<lparr>content = ''4242'', readable = False, removable = True\<rparr>
   \<and> fst (IsLocked linux_host ''svc'' (lock_fs ''4242'' False)) = (True, 0)
   \<and> lookup (lock_fs ''42x'' True) (GetLockFilePath linux_host ''svc'') =
     Some \<lparr>content = ''42x'', readable = True, removable = True\<rparr>
   \<and> Atoi ''42x'' = None
   \<and> fst (IsLocked linux_host ''svc'' (lock_fs ''42x'' True)) = (False, 0)
   \<and> may_create linux_host (GetLockFilePath linux_host ''svc'')
   \<and> AcquireApplicationLock linux_host ''svc'' (lock_fs ''4242'' False) =
        ((Some (os_File ''/tmp/svc.lock''), ''/tmp/svc.lock''), lock_fs ''5000'' True)
   \<and> AcquireApplicationLock linux_host ''svc'' (lock_fs ''42x'' True) =
        ((Some (os_File ''/tmp/svc.lock''), ''/tmp/svc.lock''), lock_fs ''5000'' True)
   \<and> lookup (foreign_lock_fs ''4242'' False) (GetLockFilePath linux_host ''svc'') =
     Some \<lparr>content = ''4242'', readable = False, removable = False\<rparr>
   \<and> fst (IsLocked linux_host ''svc'' (foreign_lock_fs ''4242'' False)) = (True, 0)
   \<and> AcquireApplicationLock linux_host ''svc'' (foreign_lock_fs ''4242'' False) =
        ((None, []), foreign_lock_fs ''4242'' False)
   \<and> lookup (lock_fs ''42x'' True) (GetLockFilePath readonly_tmp_host ''svc'') =
     Some \<lparr>content = ''42x'', readable = True, removable = True\<rparr>
   \<and> \<not> may_create readonly_tmp_host (GetLockFilePath readonly_tmp_host ''svc'')
   \<and> AcquireApplicationLock readonly_tmp_host ''svc'' (lock_fs ''42x'' True) =
        ((None, []), Map.empty)
   \<and> snd (IsLocked linux_host ''svc'' (lock_fs ''4242'' False)) = lock_fs ''4242'' False"
  using IsLocked_damaged_record [of "lock_fs ''4242'' False" linux_host "''svc''"
      "\<lparr>content = ''4242'', readable = False, removable = True\<rparr>"]
    IsLocked_damaged_record [of "lock_fs ''42x'' True" linux_host "''svc''"
      "\<lparr>content = ''42x'', readable = True, removable = True\<rparr>"]
    IsLocked_damaged_record [of "foreign_lock_fs ''4242'' False" linux_host "''svc''"
      "\<lparr>content = ''4242'', readable = False, removable = False\<rparr>"]
    IsLocked_damaged_record [of "lock_fs ''42x'' True" readonly_tmp_host "''svc''"
      "\<lparr>content = ''42x'', readable = True, removable = True\<rparr>"]
  by (simp add: linux_lock_path lookup_lock_fs lookup_foreign_lock_fs Atoi_examples linux_probe
        readonly_tmp_facts svc_lock_reclaim)

section \<open>Acquire against a live owner\<close>

text \<open>
  Claim C1, as stated, fails where the PID in the record identifies a live process that
  the caller may not signal. On the Linux host the record of \<open>svc\<close> holds PID 812, a
  live process of another user; signal 0 is refused with \<open>EPERM\<close>,
  \<open>isProcessRunning\<close> answers false, and the acquirer removes the record and obtains a
  handle.
\<close>

theorem Acquire_reclaims_from_live_foreign_owner:
  "lookup (lock_fs ''812'' True) (GetLockFilePath linux_host ''svc'') =
     Some \<lparr>content = ''812'', readable = True, removable = True\<rparr>
   \<and> Atoi ''812'' = Some 812 \<and> live linux_host 812
   \<and> AcquireApplicationLock linux_host ''svc'' (lock_fs ''812'' True) =
        ((Some (os_File ''/tmp/svc.lock''), ''/tmp/svc.lock''), lock_fs ''5000'' True)
   \<and> fst (AcquireLock linux_host ''svc'' (lock_fs ''812'' True)) =
        Some \<lparr>File = Some (os_File ''/tmp/svc.lock''), Path = ''/tmp/svc.lock''\<rparr>"
proof -
  have l: "lookup (lock_fs ''812'' True) (GetLockFilePath linux_host ''svc'') =
      Some \<lparr>content = ''812'', readable = True, removable = True\<rparr>"
    by (simp add: linux_lock_path lookup_lock_fs)
  have a: "AcquireApplicationLock linux_host ''svc'' (lock_fs ''812'' True) =
        ((Some (os_File ''/tmp/svc.lock''), ''/tmp/svc.lock''), lock_fs ''5000'' True)"
    using Acquire_reclaim [OF l]
    by (simp add: Atoi_examples linux_probe linux_lock_path itoa_5000 lock_fs_upd)
  show ?thesis
    using l a AcquireLock_eq(2) [OF a] by (simp add: Atoi_examples linux_probe)
qed

text \<open>
  Claim C1, amended. If the lock record of a name exists, can be read, its content
  parses as a PID and the probe \<open>isProcessRunning\<close> answers true for that PID, then
  \<open>AcquireApplicationLock\<close> returns a nil handle and the empty path, \<open>AcquireLock\<close>
  returns nil, and the file system is left as it was; and the exclusive creation at the
  end of the acquisition fails whenever a file stands at the lock path.
\<close>

theorem Acquire_busy_when_probe_positive:
  "(lookup fs0 (GetLockFilePath h appName) = Some f \<and> readable f
      \<and> Atoi (content f) = Some pid \<and> isProcessRunning h pid \<longrightarrow>
      AcquireApplicationLock h appName fs0 = ((None, []), fs0)
      \<and> AcquireLock h appName fs0 = (None, fs0))
   \<and> (fs0 lockPath \<noteq> None \<longrightarrow> create_lock h lockPath fs0 = ((None, []), fs0))"
proof (intro conjI impI)
  assume a: "lookup fs0 (GetLockFilePath h appName) = Some f \<and> readable f
      \<and> Atoi (content f) = Some pid \<and> isProcessRunning h pid"
  then show b: "AcquireApplicationLock h appName fs0 = ((None, []), fs0)"
    by (intro Acquire_busy [of fs0 h appName f pid]) simp_all
  then show "AcquireLock h appName fs0 = (None, fs0)"
    by (rule AcquireLock_eq)
next
  assume "fs0 lockPath \<noteq> None"
  then show "create_lock h lockPath fs0 = ((None, []), fs0)"
    by (simp add: create_lock_present)
qed

theorem Acquire_busy_when_probe_positive_witness:
  "lookup (lock_fs ''4242'' True) (GetLockFilePath linux_host ''svc'') = Some \<lparr>content = ''4242'', readable = True, removable = True\<rparr>
   \<and> Atoi ''4242'' = Some 4242 \<and> isProcessRunning linux_host 4242
   \<and> AcquireApplicationLock linux_host ''svc'' (lock_fs ''4242'' True) = ((None, []), lock_fs ''4242'' True)
   \<and> AcquireLock linux_host ''svc'' (lock_fs ''4242'' True) = (None, lock_fs ''4242'' True)
   \<and> lock_fs ''4242'' True ''/tmp/svc.lock'' \<noteq> None
   \<and> create_lock linux_host ''/tmp/svc.lock'' (lock_fs ''4242'' True) = ((None, []), lock_fs ''4242'' True)"
proof -
  have p: "lock_fs ''4242'' True ''/tmp/svc.lock'' \<noteq> None"
    by (simp add: lock_fs_def)
  show ?thesis
    using p Acquire_busy_when_probe_positive [of "lock_fs ''4242'' True" linux_host "''svc''"
      "\<lparr>content = ''4242'', readable = True, removable = True\<rparr>" 4242 "''/tmp/svc.lock''"]
    by (simp add: linux_lock_path lookup_lock_fs Atoi_examples linux_probe)
qed

section \<open>Acquire against a stale or corrupt record\<close>

text \<open>
  Claim C2, as stated, fails where the caller may not remove the stale record. On the
  Linux host the record of \<open>svc\<close> belongs to another user in a sticky directory and
  holds PID 999, which no process has. \<open>isProcessRunning\<close> answers false,
  \<open>os.Remove\<close> is refused, the acquirer drops that error, the exclusive creation finds
  the record still there, and the acquisition returns a nil handle and leaves the record
  in place.
\<close>

theorem Acquire_leaves_unremovable_stale_record:
  "lookup (foreign_lock_fs ''999'' True) (GetLockFilePath linux_host ''svc'') =
     Some \<lparr>content = ''999'', readable = True, removable = False\<rparr>
   \<and> Atoi ''999'' = Some 999 \<and> \<not> live linux_host 999 \<and> \<not> isProcessRunning linux_host 999
   \<and> AcquireApplicationLock linux_host ''svc'' (foreign_lock_fs ''999'' True) =
       ((None, []), foreign_lock_fs ''999'' True)
   \<and> AcquireLock linux_host ''svc'' (foreign_lock_fs ''999'' True) =
       (None, foreign_lock_fs ''999'' True)"
proof -
  have l: "lookup (foreign_lock_fs ''999'' True) (GetLockFilePath linux_host ''svc'') =
      Some \<lparr>content = ''999'', readable = True, removable = False\<rparr>"
    by (simp only: linux_lock_path lookup_foreign_lock_fs)
  have a: "AcquireApplicationLock linux_host ''svc'' (foreign_lock_fs ''999'' True) =
      ((None, []), foreign_lock_fs ''999'' True)"
    by (rule Acquire_kept [OF l]) (simp_all add: Atoi_examples linux_probe)
  show ?thesis
    using l a AcquireLock_eq(1) [OF a] by (simp add: Atoi_examples linux_probe)
qed

text \<open>
  Claim C2, amended. If the lock record of a name exists and can be read, and its content
  does not parse as a PID or parses as a PID for which the probe \<open>isProcessRunning\<close>
  answers false, then \<open>AcquireApplicationLock\<close> calls \<open>os.Remove\<close> on the record, drops
  the error of that call, and goes on to the exclusive creation. When the record may be
  removed and the lock path may be created, the acquisition removes the record and
  succeeds: it returns a handle on the lock path, where a fresh record holds the decimal
  text of the caller's PID and nothing else. When the record may not be removed, the
  acquisition returns a nil handle and leaves the record in place. When the record is
  removed and the creation is refused, the acquisition returns a nil handle and no record
  is left. Off Windows the probe answers false for every PID that identifies no live
  process.
\<close>

theorem Acquire_reclaims_when_probe_negative:
  assumes "lookup fs0 (GetLockFilePath h appName) = Some f" and "readable f"
    and "Atoi (content f) = None \<or> (\<exists>pid. Atoi (content f) = Some pid \<and> \<not> isProcessRunning h pid)"
  shows "AcquireApplicationLock h appName fs0 =
           create_lock h (GetLockFilePath h appName) (snd (os_Remove (GetLockFilePath h appName) fs0))
         \<and> (removable f \<and> may_create h (GetLockFilePath h appName) \<longrightarrow>
              AcquireApplicationLock h appName fs0 =
                ((Some (os_File (GetLockFilePath h appName)), GetLockFilePath h appName),
                 fs0(GetLockFilePath h appName \<mapsto> \<lparr>content = itoa (Getpid h), readable = True, removable = True\<rparr>))
              \<and> lookup (snd (os_Remove (GetLockFilePath h appName) fs0)) (GetLockFilePath h appName) = None)
         \<and> (\<not> removable f \<longrightarrow>
              AcquireApplicationLock h appName fs0 = ((None, []), fs0)
              \<and> AcquireLock h appName fs0 = (None, fs0))
         \<and> (removable f \<and> \<not> may_create h (GetLockFilePath h appName) \<longrightarrow>
              AcquireApplicationLock h appName fs0 = ((None, []), fs0(GetLockFilePath h appName := None)))
         \<and> (GOOS h \<noteq> ''windows'' \<and> \<not> live h q \<longrightarrow> \<not> isProcessRunning h q)"
proof -
  from assms(3)
  have r: "\<not> readable f \<or> (case Atoi (content f) of None \<Rightarrow> True | Some pid \<Rightarrow> \<not> isProcessRunning h pid)"
    by auto
  note l = assms(1)
  have 1: "AcquireApplicationLock h appName fs0 =
           create_lock h (GetLockFilePath h appName) (snd (os_Remove (GetLockFilePath h appName) fs0))"
    by (rule Acquire_stale [OF l r])
  have 2: "AcquireApplicationLock h appName fs0 =
                ((Some (os_File (GetLockFilePath h appName)), GetLockFilePath h appName),
                 fs0(GetLockFilePath h appName \<mapsto> \<lparr>content = itoa (Getpid h), readable = True, removable = True\<rparr>))
              \<and> lookup (snd (os_Remove (GetLockFilePath h appName) fs0)) (GetLockFilePath h appName) = None"
    if "removable f \<and> may_create h (GetLockFilePath h appName)"
    using that Acquire_reclaim [OF l r] os_Remove_removable [OF l] by (simp add: lookup_def)
  have 3: "AcquireApplicationLock h appName fs0 = ((None, []), fs0)
              \<and> AcquireLock h appName fs0 = (None, fs0)"
    if "\<not> removable f"
    using Acquire_kept [OF l r that] by (simp add: AcquireLock_def)
  have 4: "AcquireApplicationLock h appName fs0 = ((None, []), fs0(GetLockFilePath h appName := None))"
    if "removable f \<and> \<not> may_create h (GetLockFilePath h appName)"
    using that by (intro Acquire_removed_not_created [OF l r]) simp_all
  have 5: "\<not> isProcessRunning h q" if "GOOS h \<noteq> ''windows'' \<and> \<not> live h q"
    using that by (auto simp: isProcessRunning_def syscall_Kill0_def live_def split: option.splits)
  from 1 2 3 4 5 show ?thesis by blast
qed

theorem Acquire_reclaims_when_probe_negative_witness:
  "lookup (lock_fs ''999'' True) (GetLockFilePath linux_host ''svc'') =
     Some \<lparr>content = ''999'', readable = True, removable = True\<rparr>
   \<and> Atoi ''999'' = Some 999 \<and> \<not> isProcessRunning linux_host 999
   \<and> may_create linux_host (GetLockFilePath linux_host ''svc'')
   \<and> AcquireApplicationLock linux_host ''svc'' (lock_fs ''999'' True) =
        ((Some (os_File ''/tmp/svc.lock''), ''/tmp/svc.lock''), lock_fs ''5000'' True)
   \<and> lookup (foreign_lock_fs ''42x'' True) (GetLockFilePath linux_host ''svc'') =
     Some \<lparr>content = ''42x'', readable = True, removable = False\<rparr>
   \<and> Atoi ''42x'' = None
   \<and> AcquireApplicationLock linux_host ''svc'' (foreign_lock_fs ''42x'' True) =
        ((None, []), foreign_lock_fs ''42x'' True)
   \<and> AcquireLock linux_host ''svc'' (foreign_lock_fs ''42x'' True) =
        (None, foreign_lock_fs ''42x'' True)
   \<and> lookup (lock_fs ''999'' True) (GetLockFilePath readonly_tmp_host ''svc'') =
     Some \<lparr>content = ''999'', readable = True, removable = True\<rparr>
   \<and> \<not> isProcessRunning readonly_tmp_host 999
   \<and> \<not> may_create readonly_tmp_host (GetLockFilePath readonly_tmp_host ''svc'')
   \<and> AcquireApplicationLock readonly_tmp_host ''svc'' (lock_fs ''999'' True) =
        ((None, []), Map.empty)
   \<and> GOOS linux_host \<noteq> ''windows'' \<and> \<not> live linux_host 999"
proof -
  have l1: "lookup (lock_fs ''999'' True) (GetLockFilePath linux_host ''svc'') =
     Some \<lparr>content = ''999'', readable = True, removable = True\<rparr>"
    by (simp add: linux_lock_path lookup_lock_fs)
  have l2: "lookup (foreign_lock_fs ''42x'' True) (GetLockFilePath linux_host ''svc'') =
     Some \<lparr>content = ''42x'', readable = True, removable = False\<rparr>"
    by (simp add: linux_lock_path lookup_foreign_lock_fs)
  have l3: "lookup (lock_fs ''999'' True) (GetLockFilePath readonly_tmp_host ''svc'') =
     Some \<lparr>content = ''999'', readable = True, removable = True\<rparr>"
    by (simp add: readonly_tmp_facts lookup_lock_fs)
  have r1: "readable \<lparr>content = ''999'', readable = True, removable = True\<rparr>" by simp
  have r2: "readable \<lparr>content = ''42x'', readable = True, removable = False\<rparr>" by simp
  have s1: "Atoi (content \<lparr>content = ''999'', readable = True, removable = True\<rparr>) = None \<or>
     (\<exists>pid. Atoi (content \<lparr>content = ''999'', readable = True, removable = True\<rparr>) = Some pid
        \<and> \<not> isProcessRunning linux_host pid)"
    by (simp add: Atoi_examples linux_probe)
  have s2: "Atoi (content \<lparr>content = ''42x'', readable = True, removable = False\<rparr>) = None \<or>
     (\<exists>pid. Atoi (content \<lparr>content = ''42x'', readable = True, removable = False\<rparr>) = Some pid
        \<and> \<not> isProcessRunning linux_host pid)"
    by (simp add: Atoi_examples)
  have s3: "Atoi (content \<lparr>content = ''999'', readable = True, removable = True\<rparr>) = None \<or>
     (\<exists>pid. Atoi (content \<lparr>content = ''999'', readable = True, removable = True\<rparr>) = Some pid
        \<and> \<not> isProcessRunning readonly_tmp_host pid)"
    by (simp add: Atoi_examples readonly_tmp_facts)
  show ?thesis
    using l1 l2 l3
      Acquire_reclaims_when_probe_negative [OF l1 r1 s1, where q = 999]
      Acquire_reclaims_when_probe_negative [OF l2 r2 s2, where q = 999]
      Acquire_reclaims_when_probe_negative [OF l3 r1 s3, where q = 999]
    by (simp add: Atoi_examples linux_probe readonly_tmp_facts linux_lock_path svc_lock_reclaim)
qed

section \<open>The acquisition as a sequence of system calls\<close>

text \<open>
  A process that runs alone makes at most five calls, and the result is that of
  \<open>AcquireApplicationLock\<close>.
\<close>


lemma acquire_run_Returned: "acquire_run h appName k (Returned r, fs0) = (Returned r, fs0)"
  by (induction k) (simp_all add: acquire_step_def)

lemma acquire_run_OpenFile:
  "acquire_run h appName (Suc (Suc k)) (At_OpenFile, fs0) =
     (Returned (fst (create_lock h (GetLockFilePath h appName) fs0)),
      snd (create_lock h (GetLockFilePath h appName) fs0))"
  by (cases "os_OpenFile_excl h (GetLockFilePath h appName) fs0")
     (auto simp: acquire_step_def create_lock_def GetLockFilePath_def acquire_run_Returned
           split: sum.splits)

lemma acquire_run_Remove:
  "acquire_run h appName (Suc (Suc (Suc k))) (At_Remove, fs0) =
     (Returned (fst (create_lock h (GetLockFilePath h appName)
                       (snd (os_Remove (GetLockFilePath h appName) fs0)))),
      snd (create_lock h (GetLockFilePath h appName)
             (snd (os_Remove (GetLockFilePath h appName) fs0))))"
proof -
  have "acquire_step h appName At_Remove fs0 =
      (At_OpenFile, snd (os_Remove (GetLockFilePath h appName) fs0))"
    by (simp add: acquire_step_def GetLockFilePath_def)
  then show ?thesis
    using acquire_run_OpenFile [of h appName k] by simp
qed

lemma acquire_run_alone:
  "acquire_run h appName 5 (At_Stat, fs0) =
     (Returned (fst (AcquireApplicationLock h appName fs0)), snd (AcquireApplicationLock h appName fs0))"
proof (cases "lookup fs0 (GetLockFilePath h appName)")
  case None
  then have "acquire_step h appName At_Stat fs0 = (At_OpenFile, fs0)"
    by (simp add: acquire_step_def GetLockFilePath_def os_Stat_def)
  then have "acquire_run h appName 5 (At_Stat, fs0) = acquire_run h appName (Suc (Suc 2)) (At_OpenFile, fs0)"
    by (simp add: numeral_eq_Suc)
  then show ?thesis
    using None by (simp only: acquire_run_OpenFile Acquire_absent)
next
  case (Some f)
  then have s1: "acquire_step h appName At_Stat fs0 = (At_ReadFile, fs0)"
    by (simp add: acquire_step_def GetLockFilePath_def os_Stat_def)
  show ?thesis
  proof (cases "readable f \<and> (\<exists>pid. Atoi (content f) = Some pid \<and> isProcessRunning h pid)")
    case True
    then obtain pid where p: "readable f" "Atoi (content f) = Some pid" "isProcessRunning h pid"
      by blast
    with Some have "acquire_step h appName At_ReadFile fs0 = (Returned (None, []), fs0)"
      by (simp add: acquire_step_def GetLockFilePath_def os_ReadFile_def)
    with s1 have "acquire_run h appName 5 (At_Stat, fs0) = (Returned (None, []), fs0)"
      by (simp add: numeral_eq_Suc acquire_run_Returned)
    then show ?thesis
      using Acquire_busy [OF Some p] by simp
  next
    case False
    then have r: "\<not> readable f \<or> (case Atoi (content f) of None \<Rightarrow> True | Some pid \<Rightarrow> \<not> isProcessRunning h pid)"
      by (auto split: option.splits)
    with Some have "acquire_step h appName At_ReadFile fs0 = (At_Remove, fs0)"
      by (auto simp: acquire_step_def GetLockFilePath_def os_ReadFile_def split: option.splits)
    with s1 have "acquire_run h appName 5 (At_Stat, fs0) = acquire_run h appName (Suc (Suc (Suc 0))) (At_Remove, fs0)"
      by (simp add: numeral_eq_Suc)
    then show ?thesis
      by (simp only: acquire_run_Remove Acquire_stale [OF Some r])
  qed
qed

text \<open>
  Two acquirers of \<open>svc\<close> that both find the stale record of PID 999: each has read
  it before the other removes it. The first removes the record, creates its own and
  writes its PID; the second then removes that fresh record, creates its own, and both
  hold a handle.
\<close>

lemma two_acquirers_both_hold:
  "interleave linux_host other_host ''svc''
     [True, True, False, False, True, True, True, False, False, False]
     (At_Stat, At_Stat, lock_fs ''999'' True) =
   (Returned (Some (os_File ''/tmp/svc.lock''), ''/tmp/svc.lock''),
    Returned (Some (os_File ''/tmp/svc.lock''), ''/tmp/svc.lock''),
    lock_fs ''4242'' True)"
  by (simp add: acquire_step_def linux_host_def other_host_def lock_fs_def os_Stat_def os_ReadFile_def
      os_Remove_def os_OpenFile_excl_def Fprintf_d_def lookup_def Atoi_examples isProcessRunning_def
      syscall_Kill0_def itoa_def nat_digits.simps Let_def)

section \<open>Facts about registration\<close>

lemma RegisterWithConfig_empty_name:
  "RegisterWithConfig h [] config_ptr cur w = Return (Some Err_nodeName_is_required, cur) w"
  by (simp add: RegisterWithConfig_def)

lemma RegisterWithConfig_nil_config:
  "nodeName \<noteq> [] \<Longrightarrow> RegisterWithConfig h nodeName None cur w = Panic w"
  by (simp add: RegisterWithConfig_def)

lemma RegisterWithConfig_busy:
  assumes "nodeName \<noteq> []" and "EnableFileLock cfg"
    and "fst (AcquireLock h nodeName (fs w)) = None"
  shows "RegisterWithConfig h nodeName (Some cfg) cur w =
           Return (Some (Err_another_instance_running nodeName), cur)
             (w\<lparr>fs := snd (AcquireLock h nodeName (fs w))\<rparr>)"
  using assms by (cases "AcquireLock h nodeName (fs w)") (auto simp: RegisterWithConfig_def)

lemma connectMQTT_cases:
  "connectMQTT h inst w =
     (if mqtt_Connect_ok h (if MQTTBroker (config inst) = [] then getMQTTBroker h else MQTTBroker (config inst))
      then (None,
            inst\<lparr>mqttClient := Some (SetControlHandler
                    ((NewMQTTClientWithID (NodeName inst) (InstanceID inst)
                       (if MQTTBroker (config inst) = [] then getMQTTBroker h else MQTTBroker (config inst)))
                     \<lparr>mc_client := \<lparr>paho_connected = True,
                          paho_subscriptions = [ControlTopic (NodeName inst)]\<rparr>,
                       mc_connected := True\<rparr>)),
                 inst_connected := True\<rparr>,
            go (Go_startCommandReceiver
                  (if MQTTBroker (config inst) = [] then getMQTTBroker h else MQTTBroker (config inst))) w)
      else (Some ''connect failed'', inst, w))"
  by (simp add: connectMQTT_def Connect_def Let_def NewMQTTClientWithID_def)

lemma RegisterWithConfig_proceeds:
  assumes "nodeName \<noteq> []"
    and "\<not> (EnableFileLock cfg \<and> fst (AcquireLock h nodeName (fs w)) = None)"
  shows "\<exists>inst w'. RegisterWithConfig h nodeName (Some cfg) cur w = Return (None, Some inst) w'
           \<and> NodeName inst = nodeName \<and> config inst = cfg
           \<and> fileLock inst = (if EnableFileLock cfg then fst (AcquireLock h nodeName (fs w)) else None)
           \<and> (if mqtt_Connect_ok h (if MQTTBroker cfg = [] then getMQTTBroker h else MQTTBroker cfg)
               then inst_connected inst
                    \<and> Go_startCommandReceiver
                         (if MQTTBroker cfg = [] then getMQTTBroker h else MQTTBroker cfg)
                       \<in> set (spawned w')
               else \<not> inst_connected inst \<and> mqttClient inst = None
                    \<and> Go_startReconnectLoop \<in> set (spawned w'))"
  using assms
  by (cases "AcquireLock h nodeName (fs w)")
     (auto simp: RegisterWithConfig_def connectMQTT_cases Let_def go_def log_Printf_def
           split: option.splits)


section \<open>The errors of RegisterWithConfig\<close>

text \<open>
  Claim C7. For every node name and configuration, \<open>RegisterWithConfig\<close> returns an
  error exactly when the name is empty (the error is \<open>nodeName is required\<close>) or the
  file lock is enabled and \<open>AcquireLock\<close> returns nil (the error says that another
  instance is running); \<open>Register\<close>, whose configuration leaves the lock off, returns
  an error exactly when the name is empty. In particular, when the broker cannot be
  reached the registration still returns nil, with the instance not connected and the
  reconnect loop started in the background. (A nil configuration with a non-empty name
  makes the call panic: it returns nothing, so no error either.)
\<close>
theorem Register_error_iff:
  "(returns_error (RegisterWithConfig h nodeName config_ptr cur w) \<longleftrightarrow>
      nodeName = [] \<or>
      (\<exists>cfg. config_ptr = Some cfg \<and> EnableFileLock cfg
             \<and> fst (AcquireLock h nodeName (fs w)) = None))
   \<and> (returns_error (Register h nodeName cur w) \<longleftrightarrow> nodeName = [])
   \<and> (nodeName = [] \<longrightarrow>
        RegisterWithConfig h nodeName config_ptr cur w = Return (Some Err_nodeName_is_required, cur) w)
   \<and> (nodeName \<noteq> [] \<and> EnableFileLock cfg \<and> fst (AcquireLock h nodeName (fs w)) = None \<longrightarrow>
        (\<exists>w'. RegisterWithConfig h nodeName (Some cfg) cur w =
                Return (Some (Err_another_instance_running nodeName), cur) w'))
   \<and> (nodeName \<noteq> [] \<and> \<not> (EnableFileLock cfg \<and> fst (AcquireLock h nodeName (fs w)) = None)
        \<and> \<not> mqtt_Connect_ok h (if MQTTBroker cfg = [] then getMQTTBroker h else MQTTBroker cfg) \<longrightarrow>
        (\<exists>inst w'. RegisterWithConfig h nodeName (Some cfg) cur w = Return (None, Some inst) w'
                   \<and> \<not> inst_connected inst
                   \<and> Go_startReconnectLoop \<in> set (spawned w')))"
proof (intro conjI impI)
  show "returns_error (RegisterWithConfig h nodeName config_ptr cur w) \<longleftrightarrow>
      nodeName = [] \<or>
      (\<exists>cfg. config_ptr = Some cfg \<and> EnableFileLock cfg
             \<and> fst (AcquireLock h nodeName (fs w)) = None)"
  proof (cases "nodeName = []")
    case True
    then show ?thesis
      by (simp add: RegisterWithConfig_empty_name returns_error_def)
  next
    case False
    show ?thesis
    proof (cases config_ptr)
      case None
      with False show ?thesis
        by (simp add: RegisterWithConfig_nil_config returns_error_def)
    next
      case (Some cfg)
      show ?thesis
      proof (cases "EnableFileLock cfg \<and> fst (AcquireLock h nodeName (fs w)) = None")
        case True
        with False Some show ?thesis
          by (simp add: RegisterWithConfig_busy returns_error_def)
      next
        case busy: False
        from RegisterWithConfig_proceeds [OF False busy, of cur]
        obtain inst w' where "RegisterWithConfig h nodeName (Some cfg) cur w = Return (None, Some inst) w'"
          by blast
        with False Some busy show ?thesis
          by (simp add: returns_error_def)
      qed
    qed
  qed
next
  show "returns_error (Register h nodeName cur w) \<longleftrightarrow> nodeName = []"
  proof (cases "nodeName = []")
    case True
    then show ?thesis
      by (simp add: Register_def RegisterWithConfig_empty_name returns_error_def)
  next
    case False
    have "\<not> (EnableFileLock (DefaultConfig h) \<and> fst (AcquireLock h nodeName (fs w)) = None)"
      by (simp add: DefaultConfig_def)
    from RegisterWithConfig_proceeds [OF False this, of cur]
    obtain inst w' where "Register h nodeName cur w = Return (None, Some inst) w'"
      unfolding Register_def by blast
    with False show ?thesis
      by (simp add: returns_error_def)
  qed
next
  assume "nodeName = []"
  then show "RegisterWithConfig h nodeName config_ptr cur w = Return (Some Err_nodeName_is_required, cur) w"
    by (simp add: RegisterWithConfig_empty_name)
next
  assume "nodeName \<noteq> [] \<and> EnableFileLock cfg \<and> fst (AcquireLock h nodeName (fs w)) = None"
  then show "\<exists>w'. RegisterWithConfig h nodeName (Some cfg) cur w =
                Return (Some (Err_another_instance_running nodeName), cur) w'"
    by (simp add: RegisterWithConfig_busy)
next
  assume a: "nodeName \<noteq> [] \<and> \<not> (EnableFileLock cfg \<and> fst (AcquireLock h nodeName (fs w)) = None)
        \<and> \<not> mqtt_Connect_ok h (if MQTTBroker cfg = [] then getMQTTBroker h else MQTTBroker cfg)"
  then have n: "nodeName \<noteq> []"
    and b: "\<not> (EnableFileLock cfg \<and> fst (AcquireLock h nodeName (fs w)) = None)"
    by blast+
  from RegisterWithConfig_proceeds [OF n b, of cur] a
  show "\<exists>inst w'. RegisterWithConfig h nodeName (Some cfg) cur w = Return (None, Some inst) w'
                   \<and> \<not> inst_connected inst
                   \<and> Go_startReconnectLoop \<in> set (spawned w')"
    by (auto split: if_splits)
qed

lemma offline_facts:
  "\<not> mqtt_Connect_ok offline_host u" "\<not> EnableFileLock (DefaultConfig offline_host)"
  "GetLockFilePath offline_host ''svc'' = ''/tmp/svc.lock''"
  "isProcessRunning offline_host 4242"
  by (simp_all add: offline_host_def linux_host_def DefaultConfig_def GetLockFilePath_def
        isProcessRunning_def syscall_Kill0_def)

lemma offline_busy:
  "AcquireLock offline_host ''svc'' (lock_fs ''4242'' True) = (None, lock_fs ''4242'' True)"
proof -
  have l: "lookup (lock_fs ''4242'' True) (GetLockFilePath offline_host ''svc'') =
      Some \<lparr>content = ''4242'', readable = True, removable = True\<rparr>"
    by (simp add: offline_facts lookup_lock_fs)
  have "AcquireApplicationLock offline_host ''svc'' (lock_fs ''4242'' True) = ((None, []), lock_fs ''4242'' True)"
    by (rule Acquire_busy [OF l, of 4242]) (simp_all add: Atoi_examples offline_facts)
  then show ?thesis by (rule AcquireLock_eq)
qed

theorem Register_error_iff_witness:
  "returns_error (RegisterWithConfig offline_host [] (Some (DefaultConfig offline_host)) None
       (boot_world Map.empty))
   \<and> returns_error (RegisterWithLock offline_host ''svc'' None (boot_world (lock_fs ''4242'' True)))
   \<and> \<not> returns_error (Register offline_host ''svc'' None (boot_world Map.empty))
   \<and> RegisterWithConfig offline_host [] (Some (DefaultConfig offline_host)) None (boot_world Map.empty)
        = Return (Some Err_nodeName_is_required, None) (boot_world Map.empty)
   \<and> (\<exists>w'. RegisterWithLock offline_host ''svc'' None (boot_world (lock_fs ''4242'' True)) =
              Return (Some (Err_another_instance_running ''svc''), None) w')
   \<and> \<not> mqtt_Connect_ok offline_host (getMQTTBroker offline_host)
   \<and> (\<exists>inst w'. RegisterWithConfig offline_host ''svc'' (Some (DefaultConfig offline_host)) None
          (boot_world Map.empty) = Return (None, Some inst) w'
        \<and> \<not> inst_connected inst \<and> Go_startReconnectLoop \<in> set (spawned w'))"
proof -
  have b: "fst (AcquireLock offline_host ''svc'' (fs (boot_world (lock_fs ''4242'' True)))) = None"
    by (simp add: boot_world_def offline_busy)
  have e: "EnableFileLock ((DefaultConfig offline_host)\<lparr>EnableFileLock := True\<rparr>)"
    by simp
  have m: "MQTTBroker (DefaultConfig offline_host) = getMQTTBroker offline_host"
    by (simp add: DefaultConfig_def)
  show ?thesis
    using Register_error_iff [of offline_host "[]" "Some (DefaultConfig offline_host)" None
        "boot_world Map.empty" "DefaultConfig offline_host"]
      Register_error_iff [of offline_host "''svc''"
        "Some ((DefaultConfig offline_host)\<lparr>EnableFileLock := True\<rparr>)" None
        "boot_world (lock_fs ''4242'' True)" "(DefaultConfig offline_host)\<lparr>EnableFileLock := True\<rparr>"]
      Register_error_iff [of offline_host "''svc''" "Some (DefaultConfig offline_host)" None
        "boot_world Map.empty" "DefaultConfig offline_host"]
      b e m
    by (simp add: RegisterWithLock_def offline_facts returns_error_def)
qed

section \<open>What the busy outcome tells the caller\<close>

lemma linux_busy:
  assumes "Atoi c = Some pid" and "isProcessRunning linux_host pid"
  shows "AcquireApplicationLock linux_host ''svc'' (lock_fs c True) = ((None, []), lock_fs c True)"
    and "AcquireLock linux_host ''svc'' (lock_fs c True) = (None, lock_fs c True)"
    and "IsLocked linux_host ''svc'' (lock_fs c True) = ((True, pid), lock_fs c True)"
proof -
  have l: "lookup (lock_fs c True) (GetLockFilePath linux_host ''svc'') =
      Some \<lparr>content = c, readable = True, removable = True\<rparr>"
    by (simp add: linux_lock_path lookup_lock_fs)
  show a: "AcquireApplicationLock linux_host ''svc'' (lock_fs c True) = ((None, []), lock_fs c True)"
    by (rule Acquire_busy [OF l, of pid]) (simp_all add: assms)
  then show "AcquireLock linux_host ''svc'' (lock_fs c True) = (None, lock_fs c True)"
    by (rule AcquireLock_eq)
  show "IsLocked linux_host ''svc'' (lock_fs c True) = ((True, pid), lock_fs c True)"
    using IsLocked_readable [OF l] assms by simp
qed

lemma boot_world_fs: "fs (boot_world fs0) = fs0" "(boot_world fs0)\<lparr>fs := fs0\<rparr> = boot_world fs0"
  by (simp_all add: boot_world_def)

lemma linux_register_busy:
  assumes "Atoi c = Some pid" and "isProcessRunning linux_host pid"
  shows "RegisterWithLock linux_host ''svc'' None (boot_world (lock_fs c True)) =
     Return (Some (Err_another_instance_running ''svc''), None) (boot_world (lock_fs c True))"
proof -
  have "fst (AcquireLock linux_host ''svc'' (fs (boot_world (lock_fs c True)))) = None"
    by (simp add: boot_world_fs linux_busy(2) [OF assms])
  then show ?thesis
    unfolding RegisterWithLock_def
    by (subst RegisterWithConfig_busy) (simp_all add: boot_world_fs linux_busy(2) [OF assms])
qed

text \<open>
  Claim C3, as stated, fails: the busy outcome carries no PID. With the lock of \<open>svc\<close>
  held by the live process 4242, or by the live process 4343, the acquisition returns the
  same nil handle and empty path, and \<open>RegisterWithLock\<close> returns the same error, built
  from the node name alone. Only \<open>IsLocked\<close> tells the two owners apart.
\<close>

theorem busy_outcome_same_for_different_owners:
  "fst (IsLocked linux_host ''svc'' (lock_fs ''4242'' True)) = (True, 4242)
   \<and> fst (IsLocked linux_host ''svc'' (lock_fs ''4343'' True)) = (True, 4343)
   \<and> fst (AcquireApplicationLock linux_host ''svc'' (lock_fs ''4242'' True)) = (None, [])
   \<and> fst (AcquireApplicationLock linux_host ''svc'' (lock_fs ''4343'' True)) = (None, [])
   \<and> fst (AcquireLock linux_host ''svc'' (lock_fs ''4242'' True)) = None
   \<and> fst (AcquireLock linux_host ''svc'' (lock_fs ''4343'' True)) = None
   \<and> RegisterWithLock linux_host ''svc'' None (boot_world (lock_fs ''4242'' True)) =
       Return (Some (Err_another_instance_running ''svc''), None) (boot_world (lock_fs ''4242'' True))
   \<and> RegisterWithLock linux_host ''svc'' None (boot_world (lock_fs ''4343'' True)) =
       Return (Some (Err_another_instance_running ''svc''), None) (boot_world (lock_fs ''4343'' True))"
  by (simp add: linux_busy [of "''4242''" 4242] linux_busy [of "''4343''" 4343]
        linux_register_busy [of "''4242''" 4242] linux_register_busy [of "''4343''" 4343]
        Atoi_examples linux_probe)

text \<open>
  Claim C3, amended. When the acquisition fails because the probe finds the recorded PID
  running, \<open>AcquireApplicationLock\<close> returns a nil handle and the empty path,
  \<open>AcquireLock\<close> returns nil, and \<open>RegisterWithConfig\<close> with the lock enabled returns
  the error that names the node and nothing else; the owner's PID is what the separate
  probe \<open>IsLocked\<close> (\<open>IsAnotherInstanceRunning\<close>) returns, with locked true.
\<close>

theorem busy_outcome_and_owner_probe:
  assumes "lookup (fs w) (GetLockFilePath h nodeName) = Some f" and "readable f"
    and "Atoi (content f) = Some pid" and "isProcessRunning h pid"
    and "nodeName \<noteq> []" and "EnableFileLock cfg"
  shows "AcquireApplicationLock h nodeName (fs w) = ((None, []), fs w)
       \<and> AcquireLock h nodeName (fs w) = (None, fs w)
       \<and> RegisterWithConfig h nodeName (Some cfg) cur w =
           Return (Some (Err_another_instance_running nodeName), cur) w
       \<and> fst (IsLocked h nodeName (fs w)) = (True, pid)
       \<and> fst (IsAnotherInstanceRunning h nodeName (fs w)) = (True, pid)"
proof -
  have a: "AcquireApplicationLock h nodeName (fs w) = ((None, []), fs w)"
    using assms(1-4) by (rule Acquire_busy)
  then have b: "AcquireLock h nodeName (fs w) = (None, fs w)"
    by (rule AcquireLock_eq)
  have c: "RegisterWithConfig h nodeName (Some cfg) cur w =
           Return (Some (Err_another_instance_running nodeName), cur) w"
    using RegisterWithConfig_busy [where h = h and w = w and cur = cur, OF assms(5,6)] b by simp
  have d: "fst (IsLocked h nodeName (fs w)) = (True, pid)"
    using IsLocked_readable [OF assms(1,2)] assms(3,4) by simp
  from a b c d show ?thesis
    by (simp add: IsAnotherInstanceRunning_def)
qed

theorem busy_outcome_and_owner_probe_witness:
  "lookup (fs (boot_world (lock_fs ''4242'' True))) (GetLockFilePath linux_host ''svc'') =
      Some \<lparr>content = ''4242'', readable = True, removable = True\<rparr>
   \<and> Atoi ''4242'' = Some 4242 \<and> isProcessRunning linux_host 4242
   \<and> AcquireLock linux_host ''svc'' (lock_fs ''4242'' True) = (None, lock_fs ''4242'' True)
   \<and> RegisterWithConfig linux_host ''svc'' (Some ((DefaultConfig linux_host)\<lparr>EnableFileLock := True\<rparr>))
        None (boot_world (lock_fs ''4242'' True)) =
       Return (Some (Err_another_instance_running ''svc''), None) (boot_world (lock_fs ''4242'' True))
   \<and> fst (IsLocked linux_host ''svc'' (lock_fs ''4242'' True)) = (True, 4242)"
proof -
  have l: "lookup (fs (boot_world (lock_fs ''4242'' True))) (GetLockFilePath linux_host ''svc'') =
      Some \<lparr>content = ''4242'', readable = True, removable = True\<rparr>"
    by (simp add: boot_world_fs linux_lock_path lookup_lock_fs)
  have r: "readable \<lparr>content = ''4242'', readable = True, removable = True\<rparr>" by simp
  have p: "Atoi (content \<lparr>content = ''4242'', readable = True, removable = True\<rparr>) = Some 4242"
    by (simp add: Atoi_examples)
  have e: "EnableFileLock ((DefaultConfig linux_host)\<lparr>EnableFileLock := True\<rparr>)" by simp
  have n: "''svc'' \<noteq> []" by simp
  show ?thesis
    using l busy_outcome_and_owner_probe [OF l r p linux_probe(1) n e, of None]
    by (simp add: boot_world_fs Atoi_examples linux_probe)
qed

section \<open>The run that starts svc\<close>

lemma linux_facts:
  "TempDir linux_host = ''/tmp''" "GOOS linux_host = ''linux''" "Getpid linux_host = 5000"
  "os_Hostname linux_host = Some ''node1''" "env_MQTT_BROKER_URL linux_host = []"
  "mqtt_Connect_ok linux_host u" "http_register_ok linux_host"
  "getMQTTBroker linux_host = ''tcp://127.0.0.1:1883''"
  by (simp_all add: linux_host_def getMQTTBroker_def getEnvOrDefault_def DefaultMQTTBroker_def)

lemma svc_registered:
  "registered (RegisterWithLock linux_host ''svc'' None (boot_world Map.empty)) =
     Some (svc_instance\<lparr>receiver := None\<rparr>, svc_registered_world)"
  by (simp add: registered_def RegisterWithLock_def RegisterWithConfig_def boot_world_def
      linux_acquire_fresh linux_lock_path connectMQTT_cases linux_facts DefaultConfig_def
      GetInstanceID_def itoa_5000 log_Printf_def go_def SetControlHandler_def
      NewMQTTClientWithID_def ControlTopic_def Let_def svc_instance_def svc_registered_world_def)

lemma svc_started_eq: "svc_started = Some (svc_instance, svc_world)"
  by (simp add: svc_started_def svc_registered linux_facts startCommandReceiver_def Start_def
      svc_registered_world_def
      NewCommandReceiverWithInstanceID_def RegisterHandler_def NewNodeContext_def svc_instance_def
      svc_receiver_def svc_world_def Let_def log_Printf_def go_def sendRegisterMessage_def
      SetStatus_def update_ctx_def TopicControl_def TopicRegister_def)

section \<open>Stop and the shutdown hooks\<close>

lemma run_hooks_from_fields:
  "fs (run_hooks_from hooks n w) = fs w" "ctxs (run_hooks_from hooks n w) = ctxs w"
  by (induction hooks n w rule: run_hooks_from.induct) simp_all

lemma run_hooks_from_trace:
  "n \<le> length hooks \<Longrightarrow>
   hooks_run (run_hooks_from hooks n w) = hooks_run w @ rev (take n hooks)"
proof (induction n arbitrary: w)
  case 0
  then show ?case by simp
next
  case (Suc n)
  then have "n < length hooks" by simp
  then have "take (Suc n) hooks = take n hooks @ [hooks ! n]"
    by (rule take_Suc_conv_app_nth)
  with Suc show ?case by simp
qed

lemma ExecuteShutdownHooks_trace:
  assumes "ctxs w a = Some c"
  shows "hooks_run (ExecuteShutdownHooks a w) = hooks_run w @ rev (shutdownHooks c)"
    and "GetStatus a (ExecuteShutdownHooks a w) = StatusStopped"
  using assms
  by (simp_all add: ExecuteShutdownHooks_def SetStatus_def update_ctx_def run_hooks_from_fields
        run_hooks_from_trace GetStatus_def)

lemma AddShutdownHook_ctx:
  "ctxs w a = Some c \<Longrightarrow>
   ctxs (AddShutdownHook a hook w) a = Some (c\<lparr>shutdownHooks := shutdownHooks c @ [hook]\<rparr>)"
  by (simp add: AddShutdownHook_def update_ctx_def)

lemma AddShutdownHook_trace: "hooks_run (AddShutdownHook a hook w) = hooks_run w"
  by (simp add: AddShutdownHook_def update_ctx_def split: option.splits)

lemma fold_AddShutdownHook:
  "ctxs w a = Some c \<Longrightarrow>
   \<exists>c'. ctxs (fold (AddShutdownHook a) hs w) a = Some c'
        \<and> shutdownHooks c' = shutdownHooks c @ hs
        \<and> hooks_run (fold (AddShutdownHook a) hs w) = hooks_run w"
proof (induction hs arbitrary: w c)
  case Nil
  then show ?case by simp
next
  case (Cons x xs)
  from Cons.IH [OF AddShutdownHook_ctx [OF Cons.prems, of x]]
  show ?case by (simp add: AddShutdownHook_trace)
qed

lemma Stop_world:
  "snd (Stop inst w) =
     (case fileLock inst of
        Some lk \<Rightarrow> log_Printf (Log_lock_released (NodeName inst)) (w\<lparr>fs := Release (Some lk) (fs w)\<rparr>)
      | None \<Rightarrow> w)"
  by (simp add: Stop_def Let_def split: option.splits)

lemma Stop_instance:
  "fst (Stop inst w) =
     inst\<lparr>cancel := (case cancel inst of Some b \<Rightarrow> Some True | None \<Rightarrow> None),
          mqttClient := map_option Disconnect (mqttClient inst),
          receiver := map_option CommandReceiver_Stop (receiver inst)\<rparr>"
  by (simp add: Stop_def Let_def split: option.splits)

lemma CommandReceiver_Stop_props:
  "r_status (CommandReceiver_Stop r) = ReceiverStatusStopped"
  "r_cancelFunc r \<noteq> None \<Longrightarrow> r_cancelFunc (CommandReceiver_Stop r) = Some True"
  "r_client (CommandReceiver_Stop r) = Some c \<Longrightarrow> \<not> paho_connected c"
  "r_nodeCtx (CommandReceiver_Stop r) = r_nodeCtx r"
  by (auto simp: CommandReceiver_Stop_def Let_def split: option.splits if_splits)

text \<open>
  Claim C4, amended. \<open>Stop\<close> on an instance calls \<open>cancel\<close> if there is one,
  disconnects the transport client if its connected flag is set, stops the command
  receiver if there is one (its context is cancelled, its client disconnected, its
  receiver status becomes stopped), and releases the lock if held: the file system after
  \<open>Stop\<close> is the one that \<open>Release\<close> leaves, and the lock file is gone whenever
  the record at the lock path is one the caller may remove, as the record it created
  itself is (\<open>Release\<close> drops the error of a refused removal). It runs no shutdown hook and changes no \<open>NodeContext\<close>, so the node status
  stays what it was. The hooks are run, in the reverse of the order in which
  \<open>AddShutdownHook\<close> registered them, and the status set to stopped, by
  \<open>ExecuteShutdownHooks\<close>, which \<open>Stop\<close> does not call.
\<close>

theorem Stop_does_not_run_hooks:
  "(cancel inst \<noteq> None \<longrightarrow> cancel (fst (Stop inst w)) = Some True)
   \<and> (mqttClient inst = Some m \<and> mc_connected m \<longrightarrow>
        (\<exists>m'. mqttClient (fst (Stop inst w)) = Some m' \<and> \<not> paho_connected (mc_client m')))
   \<and> (receiver inst = Some r \<longrightarrow>
        (\<exists>r'. receiver (fst (Stop inst w)) = Some r'
             \<and> r_status r' = ReceiverStatusStopped
             \<and> (r_cancelFunc r \<noteq> None \<longrightarrow> r_cancelFunc r' = Some True)
             \<and> (\<forall>c. r_client r' = Some c \<longrightarrow> \<not> paho_connected c)))
   \<and> fs (snd (Stop inst w)) =
        (case fileLock inst of Some held \<Rightarrow> Release (Some held) (fs w) | None \<Rightarrow> fs w)
   \<and> (fileLock inst = Some lk \<and> Path lk \<noteq> []
        \<and> (\<forall>d. lookup (fs w) (Path lk) = Some d \<longrightarrow> removable d) \<longrightarrow>
        lookup (fs (snd (Stop inst w))) (Path lk) = None)
   \<and> hooks_run (snd (Stop inst w)) = hooks_run w
   \<and> ctxs (snd (Stop inst w)) = ctxs w
   \<and> (ctxs w a = Some c \<longrightarrow>
        hooks_run (ExecuteShutdownHooks a w) = hooks_run w @ rev (shutdownHooks c)
        \<and> GetStatus a (ExecuteShutdownHooks a w) = StatusStopped
        \<and> hooks_run (ExecuteShutdownHooks a (fold (AddShutdownHook a) hs w)) =
            hooks_run w @ rev (shutdownHooks c @ hs))"
proof (intro conjI impI)
  assume "cancel inst \<noteq> None"
  then show "cancel (fst (Stop inst w)) = Some True"
    by (auto simp: Stop_instance)
next
  assume "mqttClient inst = Some m \<and> mc_connected m"
  then show "\<exists>m'. mqttClient (fst (Stop inst w)) = Some m' \<and> \<not> paho_connected (mc_client m')"
    by (simp add: Stop_instance Disconnect_def)
next
  assume "receiver inst = Some r"
  then show "\<exists>r'. receiver (fst (Stop inst w)) = Some r'
             \<and> r_status r' = ReceiverStatusStopped
             \<and> (r_cancelFunc r \<noteq> None \<longrightarrow> r_cancelFunc r' = Some True)
             \<and> (\<forall>c. r_client r' = Some c \<longrightarrow> \<not> paho_connected c)"
    using CommandReceiver_Stop_props [of r] by (simp add: Stop_instance)
next
  show "fs (snd (Stop inst w)) =
        (case fileLock inst of Some held \<Rightarrow> Release (Some held) (fs w) | None \<Rightarrow> fs w)"
    by (simp add: Stop_world log_Printf_def split: option.splits)
next
  assume "fileLock inst = Some lk \<and> Path lk \<noteq> []
        \<and> (\<forall>d. lookup (fs w) (Path lk) = Some d \<longrightarrow> removable d)"
  then show "lookup (fs (snd (Stop inst w))) (Path lk) = None"
    by (simp add: Stop_world log_Printf_def Release_removes)
next
  show "hooks_run (snd (Stop inst w)) = hooks_run w"
    by (simp add: Stop_world log_Printf_def split: option.splits)
next
  show "ctxs (snd (Stop inst w)) = ctxs w"
    by (simp add: Stop_world log_Printf_def split: option.splits)
next
  assume c: "ctxs w a = Some c"
  then show "hooks_run (ExecuteShutdownHooks a w) = hooks_run w @ rev (shutdownHooks c)"
    by (rule ExecuteShutdownHooks_trace)
  from c show "GetStatus a (ExecuteShutdownHooks a w) = StatusStopped"
    by (rule ExecuteShutdownHooks_trace)
  from fold_AddShutdownHook [OF c, of hs]
  obtain c' where c': "ctxs (fold (AddShutdownHook a) hs w) a = Some c'"
    "shutdownHooks c' = shutdownHooks c @ hs"
    "hooks_run (fold (AddShutdownHook a) hs w) = hooks_run w"
    by blast
  show "hooks_run (ExecuteShutdownHooks a (fold (AddShutdownHook a) hs w)) =
            hooks_run w @ rev (shutdownHooks c @ hs)"
    using ExecuteShutdownHooks_trace(1) [OF c'(1)] c'(2,3) by simp
qed

lemma svc_fields:
  "cancel svc_instance = Some False"
  "mqttClient svc_instance = Some \<lparr>mc_NodeName = ''svc'',
         mc_client = \<lparr>paho_connected = True,
                      paho_subscriptions = [''v1/node/sync/svc/control'']\<rparr>,
         mc_connected = True, mc_controlTopic = ''v1/node/sync/svc/control'',
         mc_onControl = Some ()\<rparr>"
  "receiver svc_instance = Some svc_receiver"
  "fileLock svc_instance = Some \<lparr>File = Some (os_File ''/tmp/svc.lock''), Path = ''/tmp/svc.lock''\<rparr>"
  "ctxs svc_world 0 = Some \<lparr>nc_cancelled = False, nc_nodeName = ''svc'', nc_version = [],
                      nc_status = Some StatusRunning, nc_startTime = 0, shutdownHooks = []\<rparr>"
  "hooks_run svc_world = []" "r_nodeCtx svc_receiver = Some 0" "r_cancelFunc svc_receiver = Some False"
  "GetStatus 0 svc_world = StatusRunning" "r_nodeName svc_receiver = ''svc''"
  "published svc_world = [Pub_register ''v1/subapp/pcs/svc/register'']"
  "clock svc_world = 0"
  by (simp_all add: svc_instance_def svc_world_def svc_receiver_def GetStatus_def)

text \<open>
  Claim C4, as stated, fails on the instance \<open>svc\<close> once started: its receiver's
  \<open>NodeContext\<close>, at address 0, has status running, and after \<open>Stop\<close> the status is
  still running, not stopped.
\<close>

theorem Stop_leaves_status_running:
  "svc_started = Some (svc_instance, svc_world)
   \<and> map_option r_nodeCtx (receiver svc_instance) = Some (Some 0)
   \<and> GetStatus 0 svc_world = StatusRunning
   \<and> GetStatus 0 (snd (Stop svc_instance svc_world)) = StatusRunning
   \<and> GetStatus 0 (snd (Stop svc_instance svc_world)) \<noteq> StatusStopped
   \<and> map_option r_nodeCtx (receiver (fst (Stop svc_instance svc_world))) = Some (Some 0)"
  by (simp add: svc_started_eq svc_fields Stop_world Stop_instance GetStatus_def log_Printf_def
        CommandReceiver_Stop_props)

theorem Stop_does_not_run_hooks_witness:
  "cancel svc_instance \<noteq> None
   \<and> cancel (fst (Stop svc_instance svc_world)) = Some True
   \<and> (\<exists>m. mqttClient svc_instance = Some m \<and> mc_connected m)
   \<and> (\<exists>m'. mqttClient (fst (Stop svc_instance svc_world)) = Some m' \<and> \<not> paho_connected (mc_client m'))
   \<and> receiver svc_instance = Some svc_receiver \<and> r_cancelFunc svc_receiver \<noteq> None
   \<and> (\<exists>r'. receiver (fst (Stop svc_instance svc_world)) = Some r'
         \<and> r_status r' = ReceiverStatusStopped \<and> r_cancelFunc r' = Some True
         \<and> r_client r' = Some \<lparr>paho_connected = False, paho_subscriptions = []\<rparr>)
   \<and> lookup (fs svc_world) ''/tmp/svc.lock'' \<noteq> None
   \<and> map_option removable (lookup (fs svc_world) ''/tmp/svc.lock'') = Some True
   \<and> lookup (fs (snd (Stop svc_instance svc_world))) ''/tmp/svc.lock'' = None
   \<and> hooks_run (snd (Stop svc_instance svc_world)) = hooks_run svc_world
   \<and> ctxs (snd (Stop svc_instance svc_world)) = ctxs svc_world
   \<and> hooks_run (ExecuteShutdownHooks 0 svc_world) = []
   \<and> GetStatus 0 (ExecuteShutdownHooks 0 svc_world) = StatusStopped
   \<and> hooks_run (ExecuteShutdownHooks 0 (fold (AddShutdownHook 0) [1, 2, 3] svc_world)) = [3, 2, 1]"
proof -
  have r: "CommandReceiver_Stop svc_receiver =
      svc_receiver\<lparr>r_cancelFunc := Some True,
         r_client := Some \<lparr>paho_connected = False, paho_subscriptions = []\<rparr>,
         r_status := ReceiverStatusStopped\<rparr>"
    by (simp add: CommandReceiver_Stop_def svc_receiver_def Let_def TopicControl_def)
  have l: "lookup (fs svc_world) ''/tmp/svc.lock'' \<noteq> None"
    "\<forall>d. lookup (fs svc_world) ''/tmp/svc.lock'' = Some d \<longrightarrow> removable d"
    "map_option removable (lookup (fs svc_world) ''/tmp/svc.lock'') = Some True"
    by (simp_all add: svc_world_def lookup_lock_fs)
  have g: "lookup (Release (Some \<lparr>File = Some (os_File ''/tmp/svc.lock''), Path = ''/tmp/svc.lock''\<rparr>)
             (fs svc_world)) ''/tmp/svc.lock'' = None"
    using Release_removes [of "\<lparr>File = Some (os_File ''/tmp/svc.lock''), Path = ''/tmp/svc.lock''\<rparr>"
        "fs svc_world"] l(2)
    by simp
  show ?thesis
    using l Stop_does_not_run_hooks [of svc_instance svc_world
        "\<lparr>mc_NodeName = ''svc'',
         mc_client = \<lparr>paho_connected = True,
                      paho_subscriptions = [''v1/node/sync/svc/control'']\<rparr>,
         mc_connected = True, mc_controlTopic = ''v1/node/sync/svc/control'',
         mc_onControl = Some ()\<rparr>" svc_receiver
        "\<lparr>File = Some (os_File ''/tmp/svc.lock''), Path = ''/tmp/svc.lock''\<rparr>" 0
        "\<lparr>nc_cancelled = False, nc_nodeName = ''svc'', nc_version = [],
                      nc_status = Some StatusRunning, nc_startTime = 0, shutdownHooks = []\<rparr>"
        "[1, 2, 3]"]
    by (simp add: svc_fields Stop_instance r g)
qed

section \<open>The heartbeat period\<close>

lemma sendHeartbeat_connected:
  "r_client r = Some c \<Longrightarrow> paho_connected c \<Longrightarrow>
   sendHeartbeat r w = w\<lparr>published := published w @ [Pub_heartbeat (TopicHeartbeat (r_nodeName r)) (clock w)]\<rparr>"
  by (simp add: sendHeartbeat_def)

lemma heartbeat_select_published:
  assumes "r_client r = Some c" and "paho_connected c"
  shows "published (heartbeat_select r n t w) =
     published w @ map (\<lambda>k. Pub_heartbeat (TopicHeartbeat (r_nodeName r)) (t + int k * (30 * Second))) [0..<n]"
proof (induction n arbitrary: t w)
  case 0
  then show ?case by (simp add: log_Printf_def)
next
  case (Suc n)
  have "[0..<Suc n] = 0 # map Suc [0..<n]"
    by (simp add: upt_conv_Cons map_Suc_upt del: upt_Suc)
  then show ?case
    using Suc [of "t + 30 * Second" "sendHeartbeat r (w\<lparr>clock := t\<rparr>)"]
    by (simp add: sendHeartbeat_connected [OF assms] o_def algebra_simps del: upt_Suc)
qed

lemma heartbeatLoop_published:
  assumes "r_client r = Some c" and "paho_connected c"
  shows "published (heartbeatLoop r n w) =
     published w @ Pub_heartbeat (TopicHeartbeat (r_nodeName r)) (clock w + 1 * Second)
       # map (\<lambda>k. Pub_heartbeat (TopicHeartbeat (r_nodeName r)) (clock w + (int k + 1) * (30 * Second))) [0..<n]"
  by (simp add: heartbeatLoop_def Let_def heartbeat_select_published [OF assms]
        sendHeartbeat_connected [OF assms] algebra_simps)

lemma RegisterWithConfig_ignores_HeartbeatInterval:
  "registered (RegisterWithConfig h n (Some (cfg\<lparr>HeartbeatInterval := d\<rparr>)) cur w) =
   map_option (\<lambda>(inst, w'). (inst\<lparr>config := (config inst)\<lparr>HeartbeatInterval := d\<rparr>\<rparr>, w'))
     (registered (RegisterWithConfig h n (Some cfg) cur w))"
  by (cases "AcquireLock h n (fs w)")
     (auto simp: registered_def RegisterWithConfig_def connectMQTT_cases Let_def split: option.splits)

lemma svc_ten_second_registered:
  "RegisterWithConfig linux_host ''svc'' (Some ten_second_config) None (boot_world Map.empty) =
     Return (None, Some (svc_instance\<lparr>receiver := None, fileLock := None, config := ten_second_config\<rparr>))
      \<lparr>fs = Map.empty, ctxs = Map.empty, next_ctx = 0, clock = 0,
            logs = [Log_instance_info ''svc'' ''svc-node1-5000'' ''node1'' 5000,
                    Log_mqtt_connected ''svc-node1-5000''],
            hooks_run = [], published = [],
            spawned = [Go_startCommandReceiver ''tcp://127.0.0.1:1883'']\<rparr>"
  by (simp add: RegisterWithConfig_def boot_world_def ten_second_config_def
      connectMQTT_cases linux_facts DefaultConfig_def
      GetInstanceID_def itoa_5000 log_Printf_def go_def SetControlHandler_def
      NewMQTTClientWithID_def ControlTopic_def Let_def svc_instance_def)

lemma svc_ten_second_started:
  "startCommandReceiver linux_host
      (svc_instance\<lparr>receiver := None, fileLock := None, config := ten_second_config\<rparr>)
      ''tcp://127.0.0.1:1883''
      \<lparr>fs = Map.empty, ctxs = Map.empty, next_ctx = 0, clock = 0,
            logs = [Log_instance_info ''svc'' ''svc-node1-5000'' ''node1'' 5000,
                    Log_mqtt_connected ''svc-node1-5000''],
            hooks_run = [], published = [],
            spawned = [Go_startCommandReceiver ''tcp://127.0.0.1:1883'']\<rparr> =
     (svc_instance\<lparr>fileLock := None, config := ten_second_config\<rparr>,
      svc_world\<lparr>fs := Map.empty, logs := tl (logs svc_world)\<rparr>)"
  by (simp add: linux_facts startCommandReceiver_def Start_def
      NewCommandReceiverWithInstanceID_def RegisterHandler_def NewNodeContext_def svc_instance_def
      svc_receiver_def svc_world_def Let_def log_Printf_def go_def sendRegisterMessage_def
      SetStatus_def update_ctx_def TopicControl_def TopicRegister_def)

text \<open>
  Claim C5 says that consecutive heartbeats are separated by the period given in the
  configuration. The code does otherwise: \<open>heartbeatLoop\<close> makes its ticker with the
  literal \<open>30 * time.Second\<close> and never reads \<open>Config.HeartbeatInterval\<close>. Registered
  with a period of ten seconds, \<open>svc\<close> publishes one second after the loop starts and
  then at 30, 60 and 90 seconds.
\<close>

theorem heartbeat_period_ignores_config:
  "HeartbeatInterval ten_second_config = 10 * Second
   \<and> heartbeats_of_run linux_host ''svc'' ten_second_config 3 (boot_world Map.empty) =
       [Pub_heartbeat ''v1/subapp/pcs/svc/heartbeat'' (1 * Second),
        Pub_heartbeat ''v1/subapp/pcs/svc/heartbeat'' (30 * Second),
        Pub_heartbeat ''v1/subapp/pcs/svc/heartbeat'' (60 * Second),
        Pub_heartbeat ''v1/subapp/pcs/svc/heartbeat'' (90 * Second)]"
proof -
  have c: "r_client svc_receiver = Some \<lparr>paho_connected = True,
                        paho_subscriptions = [''v1/subapp/pcs/svc/control'']\<rparr>"
    by (simp add: svc_receiver_def)
  have m: "MQTTBroker ten_second_config = ''tcp://127.0.0.1:1883''"
    by (simp add: ten_second_config_def DefaultConfig_def linux_facts)
  have u: "[0..<3] = [0, 1, 2]"
    by (simp add: upt_rec)
  have d: "HeartbeatInterval ten_second_config = 10 * Second"
    by (simp add: ten_second_config_def)
  show ?thesis
    by (simp add: d heartbeats_of_run_def svc_ten_second_registered m svc_ten_second_started
        svc_fields heartbeatLoop_published [OF c] TopicHeartbeat_def u svc_world_def)
qed

section \<open>Where the core ends the process\<close>

lemma exit_code_simps:
  "exit_code (Return x w) = None" "exit_code (Exit code w) = Some code" "exit_code (Panic w) = None"
  by (simp_all add: exit_code_def)

lemma panics_simps:
  "\<not> panics (Return x w)" "\<not> panics (Exit code w)" "panics (Panic w)"
  by (simp_all add: panics_def)

lemma handleControl_no_panic: "\<not> panics (handleControl inst action w)"
  by (simp add: handleControl_def panics_def Let_def split: prod.splits)

lemma handleControl_exit:
  "exit_code (handleControl inst action w) =
     (if action = ''stop'' \<or> action = ''restart'' then Some 0 else None)"
  by (simp add: handleControl_def exit_code_def Let_def split: prod.splits)

lemma startCommandReceiver_handlers:
  assumes "receiver (fst (startCommandReceiver h inst url w0)) = Some r"
  shows "handlers r =
     [''stop'' \<mapsto> StopHandler (Some (\<lambda>w'. Exit 0 (log_Printf (Log_exit_on_stop (InstanceID inst)) w'))),
      ''status'' \<mapsto> StatusHandler, ''query'' \<mapsto> QueryHandler]"
  using assms
  by (auto simp: startCommandReceiver_def Start_def Let_def RegisterHandler_def
        NewCommandReceiverWithInstanceID_def NewNodeContext_def
      split: prod.splits option.splits if_splits)

lemma Handle_exit:
  "exit_code (Handle h (StopHandler (Some (\<lambda>w'. Exit 0 (g w')))) ctx cmd w) = Some 0"
  "exit_code (Handle h StatusHandler ctx cmd w) = None"
  "exit_code (Handle h QueryHandler ctx cmd w) = None"
  by (simp_all add: Handle_def exit_code_def Let_def split: option.splits)

lemma Handle_no_panic:
  "\<not> panics (Handle h (StopHandler (Some (\<lambda>w'. Exit 0 (g w')))) ctx cmd w)"
  "\<not> panics (Handle h StatusHandler ctx cmd w)"
  "\<not> panics (Handle h QueryHandler ctx cmd w)"
  by (simp_all add: Handle_def panics_def Let_def split: option.splits)

lemma handleControlMessage_panics:
  "panics (handleControlMessage h dec r payload w) =
     (case dec payload of
        None \<Rightarrow> False
      | Some cmd \<Rightarrow>
          (case handlers r (cmd_Command cmd) of
             None \<Rightarrow> False
           | Some handler \<Rightarrow>
               panics (Handle h handler (r_nodeCtx r) cmd
                  (log_Printf (Log_command_received (r_nodeName r) (cmd_Command cmd)) w))))"
  by (auto simp: handleControlMessage_def panics_def Let_def
      split: option.splits outcome.splits prod.splits)

lemma handleControlMessage_exit:
  "exit_code (handleControlMessage h dec r payload w) =
     (case dec payload of
        None \<Rightarrow> None
      | Some cmd \<Rightarrow>
          (case handlers r (cmd_Command cmd) of
             None \<Rightarrow> None
           | Some handler \<Rightarrow>
               exit_code (Handle h handler (r_nodeCtx r) cmd
                  (log_Printf (Log_command_received (r_nodeName r) (cmd_Command cmd)) w))))"
  by (auto simp: handleControlMessage_def exit_code_def Let_def
      split: option.splits outcome.splits prod.splits)

text \<open>
  Claim C6, amended. The core ends the host process itself, with \<open>os.Exit(0)\<close>, in its
  control-message callbacks: \<open>handleControl\<close> on the actions \<open>stop\<close> and \<open>restart\<close>
  (for \<open>restart\<close> after \<open>Stop\<close>), hence \<open>onControlMessage\<close> on a payload that
  decodes to one of them; and the \<open>stop\<close> handler that \<open>startCommandReceiver\<close>
  registers, hence \<open>handleControlMessage\<close> on a payload that decodes to the command
  \<open>stop\<close>. On every other action or command, and on a payload that does not decode,
  they do not end the process; and none of them panics.
\<close>

theorem core_exit_paths:
  "exit_code (handleControl inst action w) =
     (if action = ''stop'' \<or> action = ''restart'' then Some 0 else None)
   \<and> \<not> panics (handleControl inst action w)
   \<and> (mc_onControl m \<noteq> None \<longrightarrow>
        exit_code (onControlMessage json_action inst m payload w) =
          (case json_action payload of
             None \<Rightarrow> None
           | Some a \<Rightarrow> if a = ''stop'' \<or> a = ''restart'' then Some 0 else None))
   \<and> \<not> panics (onControlMessage json_action inst m payload w)
   \<and> (receiver (fst (startCommandReceiver h inst url w0)) = Some r \<longrightarrow>
        exit_code (handleControlMessage h json_Unmarshal r payload w) =
          (case json_Unmarshal payload of
             None \<Rightarrow> None
           | Some cmd \<Rightarrow> if cmd_Command cmd = ''stop'' then Some 0 else None)
        \<and> \<not> panics (handleControlMessage h json_Unmarshal r payload w))"
proof (intro conjI impI)
  show "exit_code (handleControl inst action w) =
     (if action = ''stop'' \<or> action = ''restart'' then Some 0 else None)"
    by (rule handleControl_exit)
next
  show "\<not> panics (handleControl inst action w)"
    by (rule handleControl_no_panic)
next
  assume "mc_onControl m \<noteq> None"
  then show "exit_code (onControlMessage json_action inst m payload w) =
          (case json_action payload of
             None \<Rightarrow> None
           | Some a \<Rightarrow> if a = ''stop'' \<or> a = ''restart'' then Some 0 else None)"
    by (auto simp: onControlMessage_def handleControl_exit exit_code_simps split: option.splits)
next
  show "\<not> panics (onControlMessage json_action inst m payload w)"
    by (simp add: onControlMessage_def handleControl_no_panic panics_simps split: option.splits)
next
  assume "receiver (fst (startCommandReceiver h inst url w0)) = Some r"
  from startCommandReceiver_handlers [OF this]
  show "exit_code (handleControlMessage h json_Unmarshal r payload w) =
          (case json_Unmarshal payload of
             None \<Rightarrow> None
           | Some cmd \<Rightarrow> if cmd_Command cmd = ''stop'' then Some 0 else None)"
    by (simp add: handleControlMessage_exit Handle_exit split: option.splits)
next
  assume "receiver (fst (startCommandReceiver h inst url w0)) = Some r"
  from startCommandReceiver_handlers [OF this]
  show "\<not> panics (handleControlMessage h json_Unmarshal r payload w)"
    by (simp add: handleControlMessage_panics Handle_no_panic split: option.splits)
qed

lemma svc_receiver_started:
  "receiver (fst (startCommandReceiver linux_host svc_instance ''tcp://127.0.0.1:1883''
      svc_registered_world)) = Some svc_receiver"
  by (simp add: linux_facts startCommandReceiver_def Start_def svc_registered_world_def
      NewCommandReceiverWithInstanceID_def RegisterHandler_def NewNodeContext_def svc_instance_def
      svc_receiver_def Let_def TopicControl_def)

text \<open>
  Claim C6, as stated, fails: on the started instance \<open>svc\<close> the action \<open>stop\<close> makes
  \<open>handleControl\<close> exit with status 0, a control message carrying it makes the
  transport callback exit, and the command \<open>stop\<close> makes the dispatch engine exit
  through the handler the core registered.
\<close>

theorem core_exits_on_stop:
  "svc_started = Some (svc_instance, svc_world)
   \<and> exit_code (handleControl svc_instance ''stop'' svc_world) = Some 0
   \<and> map_option (\<lambda>m. exit_code (onControlMessage toy_action_decoder svc_instance m ''stop'' svc_world))
        (mqttClient svc_instance) = Some (Some 0)
   \<and> map_option (\<lambda>r. exit_code (handleControlMessage linux_host toy_decoder r ''stop'' svc_world))
        (receiver svc_instance) = Some (Some 0)"
  by (simp add: svc_started_eq handleControl_exit svc_fields onControlMessage_def toy_action_decoder_def
      handleControlMessage_exit toy_decoder_def svc_receiver_def Handle_exit)

theorem core_exit_paths_witness:
  "exit_code (handleControl svc_instance ''restart'' svc_world) = Some 0
   \<and> exit_code (handleControl svc_instance ''status'' svc_world) = None
   \<and> mc_onControl (SetControlHandler (NewMQTTClientWithID ''svc'' ''svc-node1-5000'' ''tcp://127.0.0.1:1883'')) \<noteq> None
   \<and> exit_code (onControlMessage toy_action_decoder svc_instance
        (SetControlHandler (NewMQTTClientWithID ''svc'' ''svc-node1-5000'' ''tcp://127.0.0.1:1883''))
        ''stop'' svc_world) = Some 0
   \<and> receiver (fst (startCommandReceiver linux_host svc_instance ''tcp://127.0.0.1:1883''
        svc_registered_world)) = Some svc_receiver
   \<and> exit_code (handleControlMessage linux_host toy_decoder svc_receiver ''stop'' svc_world) = Some 0
   \<and> exit_code (handleControlMessage linux_host toy_decoder svc_receiver ''query'' svc_world) = None
   \<and> exit_code (handleControlMessage linux_host toy_decoder svc_receiver ''{'' svc_world) = None
   \<and> \<not> panics (handleControlMessage linux_host toy_decoder svc_receiver ''query'' svc_world)"
proof -
  have m: "mc_onControl (SetControlHandler (NewMQTTClientWithID ''svc'' ''svc-node1-5000'' ''tcp://127.0.0.1:1883'')) \<noteq> None"
    by (simp add: SetControlHandler_def)
  note t = core_exit_paths [where inst = svc_instance and w = svc_world
      and m = "SetControlHandler (NewMQTTClientWithID ''svc'' ''svc-node1-5000'' ''tcp://127.0.0.1:1883'')"
      and json_action = toy_action_decoder and h = linux_host and json_Unmarshal = toy_decoder
      and r = svc_receiver and url = "''tcp://127.0.0.1:1883''" and ?w0.0 = svc_registered_world]
  show ?thesis
    using m svc_receiver_started
      t [where action = "''restart''" and payload = "''stop''"]
      t [where action = "''status''" and payload = "''query''"]
      t [where action = "''status''" and payload = "''{''"]
    by (simp add: toy_action_decoder_def toy_decoder_def)
qed

section \<open>The dispatch engine on bad input\<close>

text \<open>
  Claim C8. For every inbound control message: if the payload does not decode,
  \<open>handleControlMessage\<close> returns having added one log line and nothing else; if it
  decodes to a command with no registered handler, it returns having added the
  \<open>received\<close> and \<open>no handler\<close> log lines and nothing else, so nothing is published
  and no handler runs; if a handler is registered under the command's name and returns,
  the engine returns with the state the handler left plus one log line; and the outcome
  depends on the registry only through the entry under the command's name.
\<close>

theorem dispatch_drops_bad_input:
  "(json_Unmarshal payload = None \<longrightarrow>
      handleControlMessage h json_Unmarshal r payload w =
        Return () (w\<lparr>logs := logs w @ [Log_parse_failed (r_nodeName r)]\<rparr>))
   \<and> (json_Unmarshal payload = Some cmd \<and> handlers r (cmd_Command cmd) = None \<longrightarrow>
        handleControlMessage h json_Unmarshal r payload w =
          Return () (w\<lparr>logs := logs w @ [Log_command_received (r_nodeName r) (cmd_Command cmd),
                                         Log_no_handler (r_nodeName r) (cmd_Command cmd)]\<rparr>))
   \<and> (json_Unmarshal payload = Some cmd \<and> handlers r (cmd_Command cmd) = Some handler
        \<and> Handle h handler (r_nodeCtx r) cmd
             (log_Printf (Log_command_received (r_nodeName r) (cmd_Command cmd)) w) = Return res w' \<longrightarrow>
        handleControlMessage h json_Unmarshal r payload w =
          Return () (log_Printf (case snd res of
                                   Some e \<Rightarrow> Log_command_failed (r_nodeName r) e
                                 | None \<Rightarrow> Log_command_result (r_nodeName r) (fst res)) w'))
   \<and> (json_Unmarshal payload = Some cmd
        \<and> handlers r' (cmd_Command cmd) = handlers r (cmd_Command cmd)
        \<and> r_nodeName r' = r_nodeName r \<and> r_nodeCtx r' = r_nodeCtx r \<longrightarrow>
        handleControlMessage h json_Unmarshal r' payload w =
          handleControlMessage h json_Unmarshal r payload w)"
proof (intro conjI impI)
  assume "json_Unmarshal payload = None"
  then show "handleControlMessage h json_Unmarshal r payload w =
        Return () (w\<lparr>logs := logs w @ [Log_parse_failed (r_nodeName r)]\<rparr>)"
    by (simp add: handleControlMessage_def log_Printf_def)
next
  assume "json_Unmarshal payload = Some cmd \<and> handlers r (cmd_Command cmd) = None"
  then show "handleControlMessage h json_Unmarshal r payload w =
          Return () (w\<lparr>logs := logs w @ [Log_command_received (r_nodeName r) (cmd_Command cmd),
                                         Log_no_handler (r_nodeName r) (cmd_Command cmd)]\<rparr>)"
    by (simp add: handleControlMessage_def log_Printf_def)
next
  assume "json_Unmarshal payload = Some cmd \<and> handlers r (cmd_Command cmd) = Some handler
        \<and> Handle h handler (r_nodeCtx r) cmd
             (log_Printf (Log_command_received (r_nodeName r) (cmd_Command cmd)) w) = Return res w'"
  then show "handleControlMessage h json_Unmarshal r payload w =
          Return () (log_Printf (case snd res of
                                   Some e \<Rightarrow> Log_command_failed (r_nodeName r) e
                                 | None \<Rightarrow> Log_command_result (r_nodeName r) (fst res)) w')"
    by (cases res) (simp add: handleControlMessage_def split: option.splits)
next
  assume "json_Unmarshal payload = Some cmd
        \<and> handlers r' (cmd_Command cmd) = handlers r (cmd_Command cmd)
        \<and> r_nodeName r' = r_nodeName r \<and> r_nodeCtx r' = r_nodeCtx r"
  then show "handleControlMessage h json_Unmarshal r' payload w =
          handleControlMessage h json_Unmarshal r payload w"
    by (auto simp: handleControlMessage_def Let_def split: option.splits outcome.splits prod.splits)
qed

lemma toy_decoder_simps:
  "toy_decoder ''{'' = None"
  "toy_decoder ''bogus'' = Some \<lparr>cmd_Command = ''bogus'', cmd_Timestamp = [], cmd_RequestID = ''r1'', cmd_Parameters = []\<rparr>"
  "toy_decoder ''status'' = Some \<lparr>cmd_Command = ''status'', cmd_Timestamp = [], cmd_RequestID = ''r1'', cmd_Parameters = []\<rparr>"
  by (simp_all add: toy_decoder_def)

lemma svc_handlers:
  "handlers svc_receiver ''bogus'' = None" "handlers svc_receiver ''status'' = Some StatusHandler"
  by (simp_all add: svc_receiver_def)

lemma svc_status_Handle:
  "Handle linux_host StatusHandler (Some 0)
      \<lparr>cmd_Command = ''status'', cmd_Timestamp = [], cmd_RequestID = ''r1'', cmd_Parameters = []\<rparr>
      (log_Printf (Log_command_received ''svc'' ''status'') svc_world) =
    Return (Some \<lparr>Success = True, Message = ''running'', res_RequestID = ''r1''\<rparr>, None)
      (log_Printf (Log_command_received ''svc'' ''status'') svc_world)"
  by (simp add: Handle_def GetStatus_def log_Printf_def svc_world_def NodeStatus_string_def)

theorem dispatch_drops_bad_input_witness:
  "toy_decoder ''{'' = None
   \<and> handleControlMessage linux_host toy_decoder svc_receiver ''{'' svc_world =
       Return () (svc_world\<lparr>logs := logs svc_world @ [Log_parse_failed ''svc'']\<rparr>)
   \<and> toy_decoder ''bogus'' \<noteq> None \<and> handlers svc_receiver ''bogus'' = None
   \<and> handleControlMessage linux_host toy_decoder svc_receiver ''bogus'' svc_world =
       Return () (svc_world\<lparr>logs := logs svc_world @ [Log_command_received ''svc'' ''bogus'',
                                                      Log_no_handler ''svc'' ''bogus'']\<rparr>)
   \<and> handlers svc_receiver ''status'' = Some StatusHandler
   \<and> handleControlMessage linux_host toy_decoder svc_receiver ''status'' svc_world =
       Return () (svc_world\<lparr>logs := logs svc_world @ [Log_command_received ''svc'' ''status'',
           Log_command_result ''svc'' (Some \<lparr>Success = True, Message = ''running'', res_RequestID = ''r1''\<rparr>)]\<rparr>)
   \<and> handleControlMessage linux_host toy_decoder
         (RegisterHandler ''bogus'' QueryHandler svc_receiver) ''status'' svc_world =
       handleControlMessage linux_host toy_decoder svc_receiver ''status'' svc_world"
proof -
  note t = dispatch_drops_bad_input [where h = linux_host and json_Unmarshal = toy_decoder
      and r = svc_receiver and w = svc_world and handler = StatusHandler
      and r' = "RegisterHandler ''bogus'' QueryHandler svc_receiver"
      and res = "(Some \<lparr>Success = True, Message = ''running'', res_RequestID = ''r1''\<rparr>, None)"
      and w' = "log_Printf (Log_command_received ''svc'' ''status'') svc_world"]
  have r': "handlers (RegisterHandler ''bogus'' QueryHandler svc_receiver) ''status'' = handlers svc_receiver ''status''"
    "r_nodeName (RegisterHandler ''bogus'' QueryHandler svc_receiver) = r_nodeName svc_receiver"
    "r_nodeCtx (RegisterHandler ''bogus'' QueryHandler svc_receiver) = r_nodeCtx svc_receiver"
    by (simp_all add: RegisterHandler_def)
  show ?thesis
    using r' svc_status_Handle
      t [where payload = "''{''" and cmd = "\<lparr>cmd_Command = ''bogus'', cmd_Timestamp = [], cmd_RequestID = ''r1'', cmd_Parameters = []\<rparr>"]
      t [where payload = "''bogus''" and cmd = "\<lparr>cmd_Command = ''bogus'', cmd_Timestamp = [], cmd_RequestID = ''r1'', cmd_Parameters = []\<rparr>"]
      t [where payload = "''status''" and cmd = "\<lparr>cmd_Command = ''status'', cmd_Timestamp = [], cmd_RequestID = ''r1'', cmd_Parameters = []\<rparr>"]
    by (simp add: toy_decoder_simps svc_handlers svc_fields log_Printf_def)
qed

section \<open>The heartbeats do not depend on the configured period\<close>

text \<open>
  Whatever the host, the name, the configuration and the number of ticks, changing
  \<open>HeartbeatInterval\<close> changes no heartbeat of the run.
\<close>

lemma startCommandReceiver_ignores_config:
  "startCommandReceiver h (inst\<lparr>config := c\<rparr>) url w =
     (case startCommandReceiver h inst url w of (inst', w') \<Rightarrow> (inst'\<lparr>config := c\<rparr>, w'))"
  by (simp add: startCommandReceiver_def Let_def split: prod.splits option.splits)

lemma heartbeats_ignore_HeartbeatInterval:
  "heartbeats_of_run h nodeName (cfg\<lparr>HeartbeatInterval := d\<rparr>) ticks w =
   heartbeats_of_run h nodeName cfg ticks w"
proof -
  have "RegisterWithConfig h nodeName (Some (cfg\<lparr>HeartbeatInterval := d\<rparr>)) None w =
     (case RegisterWithConfig h nodeName (Some cfg) None w of
        Return (err, cur) w' \<Rightarrow>
          Return (err, map_option (\<lambda>i. i\<lparr>config := (config i)\<lparr>HeartbeatInterval := d\<rparr>\<rparr>) cur) w'
      | Exit code w' \<Rightarrow> Exit code w'
      | Panic w' \<Rightarrow> Panic w')"
    by (cases "AcquireLock h nodeName (fs w)")
       (auto simp: RegisterWithConfig_def connectMQTT_cases Let_def split: option.splits)
  then show ?thesis
    by (auto simp: heartbeats_of_run_def startCommandReceiver_ignores_config
          split: outcome.splits prod.splits option.splits)
qed

end
